theory Spec2Isabelle
  imports Main
begin

section \<open>Python values, errors and indexing\<close>

text \<open>
  The embedding follows \<open>openrlhf/datasets/reward_dataset.py\<close>. Every Python exception
  that the modelled code can raise is a value of \<open>error\<close>; a function that can raise
  returns \<open>error + 'a\<close>, with \<open>Inl\<close> for the exception.
\<close>

datatype error =
    IndexError
  | KeyError
  | TypeError
  | ValueError
  | AttributeError
  | UnboundLocalError
  | AssertionError
  | RuntimeError

definition ebind :: "error + 'a \<Rightarrow> ('a \<Rightarrow> error + 'b) \<Rightarrow> error + 'b" where
  "ebind r f = (case r of Inl e \<Rightarrow> Inl e | Inr x \<Rightarrow> f x)"

text \<open>A loop whose body can raise: the first exception ends it.\<close>

fun emap :: "('a \<Rightarrow> error + 'b) \<Rightarrow> 'a list \<Rightarrow> error + 'b list" where
  "emap f [] = Inr []"
| "emap f (x # xs) =
     (case f x of
        Inl e \<Rightarrow> Inl e
      | Inr y \<Rightarrow> (case emap f xs of Inl e \<Rightarrow> Inl e | Inr ys \<Rightarrow> Inr (y # ys)))"

text \<open>
  Values of a raw record and of the processed columns. \<open>'m\<close> is one conversation turn,
  opaque to the text-only code. Numbers are carried, never computed with, apart from the
  token count, which is an integer.
\<close>

datatype 'm pyval = PyNone | PyStr string | PyNum int | PyList "'m list"

text \<open>\<open>xs[i]\<close> on a Python list: a negative index counts from the end.\<close>

definition py_index :: "'a list \<Rightarrow> int \<Rightarrow> error + 'a" where
  "py_index xs i =
     (if 0 \<le> i \<and> i < int (length xs) then Inr (xs ! nat i)
      else if i < 0 \<and> - int (length xs) \<le> i then Inr (xs ! nat (int (length xs) + i))
      else Inl IndexError)"

text \<open>\<open>a + b\<close>: strings and lists concatenate, numbers add, anything else is a TypeError.\<close>

fun py_add :: "'m pyval \<Rightarrow> 'm pyval \<Rightarrow> error + 'm pyval" where
  "py_add (PyStr a) (PyStr b) = Inr (PyStr (a @ b))"
| "py_add (PyList a) (PyList b) = Inr (PyList (a @ b))"
| "py_add (PyNum a) (PyNum b) = Inr (PyNum (a + b))"
| "py_add _ _ = Inl TypeError"

text \<open>\<open>x[:-1]\<close>: defined on strings and lists.\<close>

fun py_drop_last :: "'m pyval \<Rightarrow> error + 'm pyval" where
  "py_drop_last (PyStr a) = Inr (PyStr (butlast a))"
| "py_drop_last (PyList a) = Inr (PyList (butlast a))"
| "py_drop_last _ = Inl TypeError"

text \<open>\<open>s.rstrip("\n")\<close> and \<open>s.endswith(t)\<close> on strings.\<close>

definition rstrip_newline :: "string \<Rightarrow> string" where
  "rstrip_newline s = rev (dropWhile (\<lambda>c. c = CHR 0x0A) (rev s))"

definition endswith :: "string \<Rightarrow> string \<Rightarrow> bool" where
  "endswith s t = (length t \<le> length s \<and> drop (length s - length t) s = t)"

fun py_rstrip_newline :: "'m pyval \<Rightarrow> error + string" where
  "py_rstrip_newline (PyStr s) = Inr (rstrip_newline s)"
| "py_rstrip_newline _ = Inl AttributeError"

section \<open>The tokenizer, an external collaborator\<close>

text \<open>
  The tokenizer is called on one string with \<open>return_tensors="pt"\<close>, so \<open>input_ids\<close> and
  \<open>attention_mask\<close> have shape \<open>(1, L)\<close>. The model keeps row 0 as a list; the loops
  \<open>for i in range(len(chosen_token["input_ids"]))\<close> run once, with \<open>i = 0\<close>. The
  attention mask is an integer tensor: storing \<open>True\<close> stores 1.
\<close>

record encoding =
  input_ids :: "int list"
  attention_mask :: "int list"

text \<open>
  \<open>encode text max_length\<close> is \<open>tokenizer(text, max_length=..., padding=False,
  truncation=True, return_tensors="pt", add_special_tokens=False)\<close>; the response template
  is tokenized without a length limit (\<open>None\<close>). What the tokenizer returns is a
  parameter of every definition below.
\<close>

record tokenizer =
  encode :: "string \<Rightarrow> int option \<Rightarrow> encoding"
  eos_token :: string
  eos_token_id :: int
  pad_token_id :: int

text \<open>
  The tokenizer contract takes text: called on a value that is not a string it refuses
  (Hugging Face tokenizers raise ValueError).
\<close>

fun py_tokenize :: "tokenizer \<Rightarrow> 'm pyval \<Rightarrow> int option \<Rightarrow> error + encoding" where
  "py_tokenize tok (PyStr s) ml = Inr (encode tok s ml)"
| "py_tokenize tok _ ml = Inl ValueError"

section \<open>Items\<close>

text \<open>
  The tuples that travel between \<open>__getitem__\<close> and the collate functions: the 5-tuple
  that \<open>packing_collate_fn\<close> destructures, the 7-tuple of \<open>RewardDataset.__getitem__\<close>
  and the 11-tuple of \<open>QwenRewardDataset.__getitem__\<close>. \<open>'x\<close> is the extra value,
  \<open>'p\<close> the pixel values and \<open>'g\<close> the image grid, both opaque.
\<close>

datatype ('x, 'p, 'g) item =
    is_Item5: Item5 (chosen_id: "int list") (chosen_mask: "int list")
          (reject_id: "int list") (rejects_mask: "int list") (item_extra: 'x)
  | is_Item7: Item7 (chosen_id: "int list") (chosen_mask: "int list")
          (reject_id: "int list") (rejects_mask: "int list")
          (chosen_loss_mask: "int list") (reject_loss_mask: "int list") (item_extra: 'x)
  | is_Item11: Item11 (chosen_id: "int list") (chosen_mask: "int list")
           (reject_id: "int list") (rejects_mask: "int list")
           (chosen_loss_mask: "int list") (reject_loss_mask: "int list")
           (chosen_pixel_value: 'p) (rejected_pixel_value: 'p)
           (chosen_image_thw: 'g) (reject_image_thw: 'g) (item_extra: 'x)

section \<open>Sequence builder: the end-of-sequence override\<close>

text \<open>\<open>t[0][-1] = v\<close>: IndexError on an empty row.\<close>

definition set_last :: "int list \<Rightarrow> int \<Rightarrow> error + int list" where
  "set_last xs v = (if xs = [] then Inl IndexError else Inr (butlast xs @ [v]))"

text \<open>
  \<open>s = (prompt + answer).rstrip("\n")\<close>, then \<open>s += " " + eos_token\<close> unless \<open>s\<close> already ends
  with the end-of-sequence string.
\<close>

definition build_text :: "tokenizer \<Rightarrow> 'm pyval \<Rightarrow> 'm pyval \<Rightarrow> error + string" where
  "build_text tok prompt answer =
     ebind (py_add prompt answer) (\<lambda>joined.
     ebind (py_rstrip_newline joined) (\<lambda>s.
       Inr (if \<not> endswith s (eos_token tok) then s @ '' '' @ eos_token tok else s)))"

section \<open>Loss-mask locator\<close>

text \<open>
  The state of the local variable \<open>end_id\<close>: not yet assigned, \<open>None\<close>, or an index.
\<close>

datatype end_var = Unbound | IsNone | Is int

text \<open>
  \<open>len(ids[id:id+T]) == T and torch.all(ids[id:id+T] == response_tokens)\<close>, with
  \<open>T = len(response_tokens)\<close>.
\<close>

definition matches_at :: "int list \<Rightarrow> int list \<Rightarrow> nat \<Rightarrow> bool" where
  "matches_at ids response_tokens i =
     (length (take (length response_tokens) (drop i ids)) = length response_tokens
      \<and> take (length response_tokens) (drop i ids) = response_tokens)"

text \<open>
  The inner scan \<open>for j in range(start_id, len(ids)): if ids[j] == eos: end_id = j; break\<close>:
  the first such \<open>j\<close>, if any.
\<close>

definition scan_eos :: "int list \<Rightarrow> int \<Rightarrow> nat \<Rightarrow> nat option" where
  "scan_eos ids eos start_id = List.find (\<lambda>j. ids ! j = eos) [start_id..<length ids]"

text \<open>\<open>mask[start:stop] = 1\<close> with \<open>0 \<le> stop\<close>; an empty slice changes nothing.\<close>

definition fill_slice :: "int list \<Rightarrow> nat \<Rightarrow> int \<Rightarrow> int list" where
  "fill_slice msk start stop =
     map (\<lambda>(p, v). if start \<le> p \<and> int p < stop then 1 else v) (enumerate 0 msk)"

text \<open>
  The body of the loop over candidates, for the four copies of the loop in the source.
  They differ in two places:
  \<^item> \<open>reset\<close>: the reject loops assign \<open>end_id = None\<close> before the scan; in the chosen
    loops that line is commented out, so \<open>end_id\<close> keeps what it had;
  \<^item> \<open>fallback\<close>: the loops of \<open>QwenRewardDataset\<close> have
    \<open>if end_id is None: end_id = len(ids) - 1\<close>; those of \<open>RewardDataset\<close> do not.
  Reading an unassigned \<open>end_id\<close> raises UnboundLocalError, and \<open>None + 1\<close> raises
  TypeError.
\<close>

definition span_step ::
  "bool \<Rightarrow> bool \<Rightarrow> int \<Rightarrow> int list \<Rightarrow> int list \<Rightarrow> nat \<Rightarrow> int list \<times> end_var
     \<Rightarrow> error + int list \<times> end_var" where
  "span_step reset fallback eos ids response_tokens i st =
     (case st of (msk, end_id) \<Rightarrow>
        if matches_at ids response_tokens i then
          let start_id = i + length response_tokens;
              end_id1 = (if reset then IsNone else end_id);
              end_id2 = (case scan_eos ids eos start_id of
                           Some j \<Rightarrow> Is (int j)
                         | None \<Rightarrow> end_id1)
          in ebind (if fallback then
                      (case end_id2 of
                         Unbound \<Rightarrow> Inl UnboundLocalError
                       | IsNone \<Rightarrow> Inr (Is (int (length ids) - 1))
                       | Is j \<Rightarrow> Inr (Is j))
                    else Inr end_id2)
               (\<lambda>end_id3.
                  case end_id3 of
                    Unbound \<Rightarrow> Inl UnboundLocalError
                  | IsNone \<Rightarrow> Inl TypeError
                  | Is j \<Rightarrow> Inr (fill_slice msk start_id (j + 1), Is j))
        else Inr (msk, end_id))"

fun span_loop ::
  "bool \<Rightarrow> bool \<Rightarrow> int \<Rightarrow> int list \<Rightarrow> int list \<Rightarrow> nat list \<Rightarrow> int list \<times> end_var
     \<Rightarrow> error + int list \<times> end_var" where
  "span_loop reset fallback eos ids response_tokens [] st = Inr st"
| "span_loop reset fallback eos ids response_tokens (i # cs) st =
     (case span_step reset fallback eos ids response_tokens i st of
        Inl e \<Rightarrow> Inl e
      | Inr st' \<Rightarrow> span_loop reset fallback eos ids response_tokens cs st')"

text \<open>
  \<open>torch.where(ids == response_tokens[0])[0]\<close>: the candidate positions, in increasing
  order. \<open>response_tokens[0]\<close> raises IndexError when the template has no tokens.
\<close>

definition candidates :: "int list \<Rightarrow> int list \<Rightarrow> error + nat list" where
  "candidates ids response_tokens =
     (case response_tokens of
        [] \<Rightarrow> Inl IndexError
      | t0 # _ \<Rightarrow> Inr (filter (\<lambda>i. ids ! i = t0) [0..<length ids]))"

text \<open>
  One loop of the source: the mask starts as \<open>torch.zeros_like(input_ids)\<close>, \<open>end_id\<close> as
  the function left it so far.
\<close>

definition locate_spans ::
  "bool \<Rightarrow> bool \<Rightarrow> int \<Rightarrow> int list \<Rightarrow> int list \<Rightarrow> end_var \<Rightarrow> error + int list \<times> end_var" where
  "locate_spans reset fallback eos ids response_tokens end_id =
     ebind (candidates ids response_tokens) (\<lambda>cs.
       span_loop reset fallback eos ids response_tokens cs
         (replicate (length ids) 0, end_id))"

text \<open>
  The \<open>if self.response_template is not None ... else ...\<close> block: the chosen loop, then
  the reject loop, which shares the local \<open>end_id\<close>. Without a template both loss masks
  are the attention masks themselves.
\<close>

definition loss_masks ::
  "bool \<Rightarrow> tokenizer \<Rightarrow> string option \<Rightarrow> int list \<Rightarrow> int list \<Rightarrow> int list \<Rightarrow> int list
     \<Rightarrow> error + int list \<times> int list" where
  "loss_masks fallback tok response_template c_ids c_mask r_ids r_mask =
     (case response_template of
        Some template \<Rightarrow>
          (let response_tokens = input_ids (encode tok template None) in
           ebind (locate_spans False fallback (eos_token_id tok) c_ids response_tokens Unbound)
             (\<lambda>(chosen_loss_mask, end_id).
           ebind (locate_spans True fallback (eos_token_id tok) r_ids response_tokens end_id)
             (\<lambda>(reject_loss_mask, _).
              Inr (chosen_loss_mask, reject_loss_mask))))
      | None \<Rightarrow> Inr (c_mask, r_mask))"

text \<open>
  The four assignments under \<open># to avoid EOS_token truncation\<close>, in source order, followed
  by the loss masks.
\<close>

definition force_eos_and_mask ::
  "bool \<Rightarrow> tokenizer \<Rightarrow> string option \<Rightarrow> encoding \<Rightarrow> encoding
     \<Rightarrow> error + (int list \<times> int list \<times> int list \<times> int list \<times> int list \<times> int list)" where
  "force_eos_and_mask fallback tok response_template chosen_token reject_token =
     ebind (set_last (input_ids chosen_token) (eos_token_id tok)) (\<lambda>c_ids.
     ebind (set_last (input_ids reject_token) (eos_token_id tok)) (\<lambda>r_ids.
     ebind (set_last (attention_mask chosen_token) 1) (\<lambda>c_mask.
     ebind (set_last (attention_mask reject_token) 1) (\<lambda>r_mask.
     ebind (loss_masks fallback tok response_template c_ids c_mask r_ids r_mask)
       (\<lambda>(chosen_loss_mask, reject_loss_mask).
          Inr (c_ids, c_mask, r_ids, r_mask, chosen_loss_mask, reject_loss_mask))))))"

section \<open>Example normalizer\<close>

text \<open>
  A raw record is a dictionary from column names to values. \<open>data[key]\<close> raises KeyError
  for a missing key; the key names come from \<open>strategy.args\<close> and may be \<open>None\<close>, which
  is never a column name.
\<close>

type_synonym 'm raw_record = "string \<rightharpoonup> 'm pyval"

definition subscript :: "'m raw_record \<Rightarrow> string option \<Rightarrow> error + 'm pyval" where
  "subscript data key =
     (case key of
        None \<Rightarrow> Inl KeyError
      | Some k \<Rightarrow> (case data k of None \<Rightarrow> Inl KeyError | Some v \<Rightarrow> Inr v))"

text \<open>\<open>if prompt_key:\<close> and \<open>if input_template:\<close>: \<open>None\<close> and the empty string are false.\<close>

definition truthy :: "string option \<Rightarrow> bool" where
  "truthy s = (case s of None \<Rightarrow> False | Some k \<Rightarrow> k \<noteq> [])"

text \<open>
  The value of \<open>apply_chat_template\<close>: false (\<open>False\<close> or \<open>None\<close>), the bare flag \<open>True\<close>
  (which \<open>QwenRewardDataset\<close> passes on as it is), or the tokenizer's renderer, called as
  \<open>apply_chat_template(conversation, tokenize=False, add_generation_prompt=...)\<close>. Calling the
  flag raises TypeError.
\<close>

datatype 'm chat_template =
    NotSet
  | Flag
  | Render "'m pyval \<Rightarrow> bool \<Rightarrow> string"

text \<open>\<open>if apply_chat_template:\<close>; only the false value is false.\<close>

fun template_truthy :: "'m chat_template \<Rightarrow> bool" where
  "template_truthy NotSet = False"
| "template_truthy Flag = True"
| "template_truthy (Render f) = True"

definition call_template :: "'m chat_template \<Rightarrow> 'm pyval \<Rightarrow> bool \<Rightarrow> error + string" where
  "call_template act conversation add_generation_prompt =
     (case act of
        Render f \<Rightarrow> Inr (f conversation add_generation_prompt)
      | _ \<Rightarrow> Inl TypeError)"

text \<open>
  Modelled from the spec: \<open>utils.exist_and_not_none\<close> is not under src. The margin
  defaults to 0 when the field is absent; a field holding \<open>None\<close> counts as absent.
\<close>

definition exist_and_not_none :: "'m raw_record \<Rightarrow> string \<Rightarrow> bool" where
  "exist_and_not_none d key = (case d key of None \<Rightarrow> False | Some v \<Rightarrow> v \<noteq> PyNone)"

text \<open>
  \<open>preprocess_data\<close>. \<open>str_format\<close> stands for Python's \<open>input_template.format(prompt)\<close>.
  Arguments are evaluated before the call they are passed to, so a missing key is
  reported before an uncallable template.
\<close>

definition preprocess_data ::
  "(string \<Rightarrow> 'm pyval \<Rightarrow> string) \<Rightarrow> 'm raw_record \<Rightarrow> string option \<Rightarrow> string option
     \<Rightarrow> string option \<Rightarrow> string option \<Rightarrow> 'm chat_template \<Rightarrow> bool
     \<Rightarrow> error + 'm pyval \<times> 'm pyval \<times> 'm pyval \<times> 'm pyval" where
  "preprocess_data str_format data input_template prompt_key chosen_key rejected_key
     apply_chat_template is_dpo' =
     (let margin = (if exist_and_not_none data ''margin''
                    then (case data ''margin'' of Some v \<Rightarrow> v | None \<Rightarrow> PyNum 0)
                    else PyNum 0)
      in
      if template_truthy apply_chat_template then
        if truthy prompt_key then
          ebind (subscript data prompt_key) (\<lambda>p.
          ebind (call_template apply_chat_template p True) (\<lambda>prompt.
          ebind (subscript data chosen_key) (\<lambda>c.
          ebind (py_add p c) (\<lambda>pc.
          ebind (call_template apply_chat_template pc False) (\<lambda>chosen_full.
          ebind (subscript data rejected_key) (\<lambda>r.
          ebind (py_add p r) (\<lambda>pr.
          ebind (call_template apply_chat_template pr False) (\<lambda>rejected_full.
            Inr (PyStr prompt,
                 PyStr (drop (length prompt) chosen_full),
                 PyStr (drop (length prompt) rejected_full),
                 margin)))))))))
        else
          ebind (subscript data chosen_key) (\<lambda>c.
          ebind (call_template apply_chat_template c False) (\<lambda>chosen.
          ebind (subscript data rejected_key) (\<lambda>r.
          ebind (call_template apply_chat_template r False) (\<lambda>rejected.
            if is_dpo' then
              ebind (py_drop_last c) (\<lambda>history.
              ebind (call_template apply_chat_template history True) (\<lambda>prompt.
                Inr (PyStr prompt,
                     PyStr (drop (length prompt) chosen),
                     PyStr (drop (length prompt) rejected),
                     margin)))
            else Inr (PyStr [], PyStr chosen, PyStr rejected, margin)))))
      else
        ebind (if truthy prompt_key then
                 ebind (subscript data prompt_key) (\<lambda>p.
                   Inr (if truthy input_template
                        then PyStr (str_format (case input_template of Some t \<Rightarrow> t | None \<Rightarrow> []) p)
                        else p))
               else Inr (PyStr []))
          (\<lambda>prompt.
        ebind (subscript data chosen_key) (\<lambda>chosen.
        ebind (subscript data rejected_key) (\<lambda>rejected.
          Inr (prompt, chosen, rejected, margin)))))"

section \<open>RewardDataset\<close>

text \<open>
  The attributes of a dataset object. \<open>QwenRewardDataset\<close> has the same ones and a
  processor besides. The columns hold what \<open>process_data\<close> stored.
\<close>

record 'm reward_dataset =
  tokenizer :: tokenizer
  max_length :: int
  is_dpo :: bool
  multiple_of :: int
  input_template :: "string option"
  prompt_key :: "string option"
  chosen_key :: "string option"
  rejected_key :: "string option"
  apply_chat_template :: "'m chat_template"
  response_template :: "string option"
  prompts :: "'m pyval list"
  chosens :: "'m pyval list"
  rejects :: "'m pyval list"
  extras :: "'m pyval list"

text \<open>The dictionary that \<open>process_data\<close> returns.\<close>

record 'm example =
  prompt :: "'m pyval"
  chosen :: "'m pyval"
  reject :: "'m pyval"
  extra :: "'m pyval"

text \<open>
  \<open>process_data\<close>: \<open>prompt_ids_len\<close> is \<open>prompt_token["attention_mask"].int().sum().item()\<close>.
\<close>

definition process_data ::
  "(string \<Rightarrow> 'm pyval \<Rightarrow> string) \<Rightarrow> ('m, 'z) reward_dataset_scheme \<Rightarrow> 'm raw_record
     \<Rightarrow> error + 'm example" where
  "process_data str_format self data =
     ebind (preprocess_data str_format data (input_template self) (prompt_key self)
              (chosen_key self) (rejected_key self) (apply_chat_template self) (is_dpo self))
       (\<lambda>(prompt0, chosen0, reject0, margin).
          if is_dpo self then
            ebind (py_tokenize (tokenizer self) prompt0 (Some (max_length self)))
              (\<lambda>prompt_token.
                 let prompt_ids_len = sum_list (attention_mask prompt_token);
                     prompt1 = (if prompt_ids_len \<ge> max_length self - 2 then PyNone
                                else prompt0)
                 in Inr \<lparr>prompt = prompt1, chosen = chosen0, reject = reject0,
                         extra = PyNum prompt_ids_len\<rparr>)
          else Inr \<lparr>prompt = prompt0, chosen = chosen0, reject = reject0, extra = margin\<rparr>)"

text \<open>
  The end of \<open>__init__\<close>: \<open>dataset.map(self.process_data)\<close>, the filter
  \<open>lambda x: x["prompt"] is not None\<close>, and the four columns.
\<close>

definition load_columns ::
  "(string \<Rightarrow> 'm pyval \<Rightarrow> string) \<Rightarrow> ('m, 'z) reward_dataset_scheme \<Rightarrow> 'm raw_record list
     \<Rightarrow> error + ('m, 'z) reward_dataset_scheme" where
  "load_columns str_format self dataset =
     ebind (emap (process_data str_format self) dataset) (\<lambda>mapped.
       let processed_dataset = filter (\<lambda>x. prompt x \<noteq> PyNone) mapped
       in Inr (self\<lparr>prompts := map prompt processed_dataset,
                     chosens := map chosen processed_dataset,
                     rejects := map reject processed_dataset,
                     extras := map extra processed_dataset\<rparr>))"

text \<open>\<open>RewardDataset.__getitem__\<close>.\<close>

definition getitem ::
  "('m, 'z) reward_dataset_scheme \<Rightarrow> int \<Rightarrow> error + ('m pyval, 'p, 'g) item" where
  "getitem self idx =
     ebind (py_index (prompts self) idx) (\<lambda>prompt.
     ebind (py_index (chosens self) idx) (\<lambda>chosen.
     ebind (py_index (rejects self) idx) (\<lambda>reject.
     ebind (py_index (extras self) idx) (\<lambda>extra.
     ebind (build_text (tokenizer self) prompt chosen) (\<lambda>chosen_text.
     let chosen_token = encode (tokenizer self) chosen_text (Some (max_length self)) in
     ebind (build_text (tokenizer self) prompt reject) (\<lambda>reject_text.
     let reject_token = encode (tokenizer self) reject_text (Some (max_length self)) in
     ebind (force_eos_and_mask False (tokenizer self) (response_template self)
              chosen_token reject_token)
       (\<lambda>(c_ids, c_mask, r_ids, r_mask, c_loss, r_loss).
          Inr (Item7 c_ids c_mask r_ids r_mask c_loss r_loss extra))))))))"

section \<open>Padded batch assembler\<close>

datatype side = Left | Right

text \<open>
  Modelled from the spec: \<open>utils.zero_pad_sequences\<close> is not under src. It pads every
  sequence in the list to the maximum length present in the list, inserting the pad value
  on the configured side, and stacks the rows. The spec says nothing of the empty list;
  the model returns the empty batch there.
\<close>

definition zero_pad_sequences :: "int list list \<Rightarrow> side \<Rightarrow> int \<Rightarrow> int list list" where
  "zero_pad_sequences sequences sd v =
     (let max_len = foldr max (map length sequences) 0
      in map (\<lambda>seq. case sd of
                       Left \<Rightarrow> replicate (max_len - length seq) v @ seq
                     | Right \<Rightarrow> seq @ replicate (max_len - length seq) v)
           sequences)"

text \<open>
  The loop of \<open>RewardDataset.collate_fn\<close>. Each item is destructured into seven names;
  any other tuple raises ValueError. The last component of the state is the loop variable
  \<open>rejected_loss_mask\<close>, unassigned before the first iteration.
\<close>

type_synonym 'x collate_vars =
  "int list list \<times> int list list \<times> int list list \<times> int list list \<times> 'x list
     \<times> int list list \<times> int list list \<times> int list option"

fun collate_loop ::
  "('x, 'p, 'g) item list \<Rightarrow> 'x collate_vars \<Rightarrow> error + 'x collate_vars" where
  "collate_loop [] vars = Inr vars"
| "collate_loop (it # item_list)
     (chosen_ids, chosen_masks, reject_ids, rejects_masks, extras', chosen_loss_masks,
      reject_loss_masks, rejected_loss_mask) =
     (case it of
        Item7 chosen_id' chosen_mask' reject_id' rejects_mask' chosen_loss_mask'
              rejected_loss_mask' extra' \<Rightarrow>
          collate_loop item_list
            (chosen_ids @ [chosen_id'], chosen_masks @ [chosen_mask'],
             reject_ids @ [reject_id'], rejects_masks @ [rejects_mask'],
             extras' @ [extra'], chosen_loss_masks @ [chosen_loss_mask'],
             reject_loss_masks @ [rejected_loss_mask'], Some rejected_loss_mask')
      | _ \<Rightarrow> Inl ValueError)"

text \<open>
  \<open>RewardDataset.collate_fn\<close>. The six fields are padded; the tuple returned names
  \<open>rejected_loss_mask\<close>, the loop variable, in the sixth place, so that component is one
  item's tensor and not a batch.
\<close>

definition collate_fn ::
  "('m, 'z) reward_dataset_scheme \<Rightarrow> ('x, 'p, 'g) item list
     \<Rightarrow> error + (int list list \<times> int list list \<times> int list list \<times> int list list
                  \<times> int list list \<times> int list \<times> 'x list)" where
  "collate_fn self item_list =
     ebind (collate_loop item_list ([], [], [], [], [], [], [], None))
       (\<lambda>(chosen_ids, chosen_masks, reject_ids, rejects_masks, extras', chosen_loss_masks,
          reject_loss_masks, rejected_loss_mask).
          let padding_side = (if is_dpo self then Right else Left);
              chosen_ids1 = zero_pad_sequences chosen_ids padding_side
                              (pad_token_id (tokenizer self));
              chosen_masks1 = zero_pad_sequences chosen_masks padding_side 0;
              reject_ids1 = zero_pad_sequences reject_ids padding_side
                              (pad_token_id (tokenizer self));
              rejects_masks1 = zero_pad_sequences rejects_masks padding_side 0;
              chosen_loss_masks1 = zero_pad_sequences chosen_loss_masks padding_side 0;
              reject_loss_masks1 = zero_pad_sequences reject_loss_masks padding_side 0
          in case rejected_loss_mask of
               None \<Rightarrow> Inl UnboundLocalError
             | Some last_mask \<Rightarrow>
                 Inr (chosen_ids1, chosen_masks1, reject_ids1, rejects_masks1,
                      chosen_loss_masks1, last_mask, extras'))"

section \<open>Packed batch assembler\<close>

text \<open>
  The loop of \<open>packing_collate_fn\<close>, the same in both classes. Each item is destructured
  into five names; any other tuple raises ValueError. \<open>n\<close> is \<open>len(item_list)\<close> of the
  whole list, \<open>index\<close> the running counter.
\<close>

type_synonym 'x packing_vars =
  "'x list \<times> int list list \<times> int list list \<times> int list
     \<times> int list list \<times> int list list \<times> int list \<times> int"

fun packing_loop ::
  "int \<Rightarrow> ('x, 'p, 'g) item list \<Rightarrow> 'x packing_vars \<Rightarrow> error + 'x packing_vars" where
  "packing_loop n [] vars = Inr vars"
| "packing_loop n (it # item_list)
     (extras', chosen_ids, chosen_att_masks, chosen_seq_lens, rejected_ids,
      rejected_att_masks, rejected_seq_lens, index) =
     (case it of
        Item5 chosen_id' chosen_mask' reject_id' rejects_mask' extra' \<Rightarrow>
          packing_loop n item_list
            (extras' @ [extra'],
             chosen_ids @ [chosen_id'],
             chosen_att_masks @ [replicate (length chosen_id') index],
             chosen_seq_lens @ [int (length chosen_id')],
             rejected_ids @ [reject_id'],
             rejected_att_masks @ [replicate (length reject_id') (index + n)],
             rejected_seq_lens @ [int (length reject_id')],
             index + 1)
      | _ \<Rightarrow> Inl ValueError)"

text \<open>\<open>torch.cat\<close> of a list of rows: RuntimeError on the empty list.\<close>

definition torch_cat :: "int list list \<Rightarrow> error + int list" where
  "torch_cat tensors = (if tensors = [] then Inl RuntimeError else Inr (concat tensors))"

text \<open>
  \<open>packing_collate_fn\<close>. The packed tensors have shape \<open>(1, total)\<close>; the model keeps the
  row.
\<close>

definition packing_collate_fn ::
  "('m, 'z) reward_dataset_scheme \<Rightarrow> ('x, 'p, 'g) item list
     \<Rightarrow> error + (int list \<times> int list \<times> int list \<times> 'x list)" where
  "packing_collate_fn self item_list =
     ebind (packing_loop (int (length item_list)) item_list ([], [], [], [], [], [], [], 1))
       (\<lambda>(extras', chosen_ids, chosen_att_masks, chosen_seq_lens, rejected_ids,
          rejected_att_masks, rejected_seq_lens, index).
     ebind (torch_cat (chosen_ids @ rejected_ids)) (\<lambda>packed_input_ids.
     ebind (torch_cat (chosen_att_masks @ rejected_att_masks)) (\<lambda>packed_attention_masks.
       let packed_seq_lens = chosen_seq_lens @ rejected_seq_lens in
       if multiple_of self > 1
          \<and> int (length packed_input_ids) mod multiple_of self \<noteq> 0 then
         let padding_len =
               multiple_of self - (int (length packed_input_ids) mod multiple_of self)
         in Inr (packed_input_ids @ replicate (nat padding_len) (pad_token_id (tokenizer self)),
                 packed_attention_masks @ replicate (nat padding_len) 0,
                 packed_seq_lens, extras')
       else Inr (packed_input_ids, packed_attention_masks, packed_seq_lens, extras'))))"

section \<open>QwenRewardDataset\<close>

text \<open>
  One entry of a turn's content list is a dictionary; its values are \<open>None\<close>, a string
  or image data. A turn is a dictionary with a content list.
\<close>

datatype 'i content_value = Null | Str string | Image 'i

type_synonym 'i entry = "string \<rightharpoonup> 'i content_value"

record 'i turn =
  role :: string
  content :: "'i entry list"

text \<open>
  The body of \<open>for m in d["content"]\<close>: \<open>m["type"]\<close> and \<open>m["image"]\<close> raise KeyError for a
  missing key, the \<open>assert\<close> raises AssertionError, \<open>del\<close> removes a key.
\<close>

definition clean_entry :: "'i entry \<Rightarrow> error + 'i entry" where
  "clean_entry m =
     (case m ''type'' of
        None \<Rightarrow> Inl KeyError
      | Some ty \<Rightarrow>
          ebind (if ty = Str ''image'' then
                   (let m1 = (if m ''text'' = Some Null then m(''text'' := None) else m)
                    in case m1 ''image'' of
                         None \<Rightarrow> Inl KeyError
                       | Some v \<Rightarrow> if v \<noteq> Null then Inr m1 else Inl AssertionError)
                 else Inr m)
            (\<lambda>m2. Inr (if m2 ''image'' = Some Null \<and> m2 ''type'' = Some (Str ''text'')
                        then m2(''image'' := None) else m2)))"

definition clean_turn :: "'i turn \<Rightarrow> error + 'i turn" where
  "clean_turn d = ebind (emap clean_entry (content d)) (\<lambda>ms. Inr (d\<lparr>content := ms\<rparr>))"

text \<open>
  \<open>for d in chosen\<close>: a list of turns is cleaned in order. Iterating the empty string does
  nothing; a character of a string has no \<open>["content"]\<close>, and \<open>None\<close> and numbers are not
  iterable.
\<close>

fun clean_conversation :: "'i turn pyval \<Rightarrow> error + 'i turn pyval" where
  "clean_conversation (PyList turns) = ebind (emap clean_turn turns) (\<lambda>ts. Inr (PyList ts))"
| "clean_conversation (PyStr s) = (if s = [] then Inr (PyStr s) else Inl TypeError)"
| "clean_conversation _ = Inl TypeError"

text \<open>
  The processor, an external collaborator: its tokenizer, its chat-template renderer
  (\<open>tokenize=False, add_generation_prompt=False\<close>) and the call that tokenizes text with
  images. The result is a dictionary; \<open>pixel_values\<close> and \<open>image_grid_thw\<close> may be
  missing from it. \<open>'v\<close> is what \<open>process_vision_info\<close> extracts.
\<close>

record ('p, 'g) batch_feature = encoding +
  pixel_values :: "'p option"
  image_grid_thw :: "'g option"

record ('i, 'v, 'p, 'g) processor =
  render_chat :: "'i turn pyval \<Rightarrow> string"
  process_vision_info :: "'i turn pyval \<Rightarrow> 'v"
  process :: "string \<Rightarrow> 'v \<Rightarrow> int \<Rightarrow> ('p, 'g) batch_feature"

text \<open>
  \<open>QwenRewardDataset\<close> keeps \<open>processor.tokenizer\<close> as its \<open>tokenizer\<close> attribute, so the
  attributes of \<open>RewardDataset\<close> are extended by the processor alone.
\<close>

record ('i, 'v, 'p, 'g) qwen_reward_dataset = "'i turn reward_dataset" +
  processor :: "('i, 'v, 'p, 'g) processor"

definition lookup_feature :: "'a option \<Rightarrow> error + 'a" where
  "lookup_feature v = (case v of None \<Rightarrow> Inl KeyError | Some x \<Rightarrow> Inr x)"

text \<open>\<open>QwenRewardDataset.__getitem__\<close>.\<close>

definition qwen_getitem ::
  "('i, 'v, 'p, 'g) qwen_reward_dataset \<Rightarrow> int \<Rightarrow> error + ('i turn pyval, 'p, 'g) item" where
  "qwen_getitem self idx =
     ebind (py_index (prompts self) idx) (\<lambda>prompt.
     ebind (py_index (chosens self) idx) (\<lambda>chosen0.
     ebind (py_index (rejects self) idx) (\<lambda>reject0.
     ebind (py_index (extras self) idx) (\<lambda>extra.
     ebind (clean_conversation chosen0) (\<lambda>chosen.
     ebind (clean_conversation reject0) (\<lambda>reject.
     let chosen_text = render_chat (processor self) chosen;
         chosen_image_inputs = process_vision_info (processor self) chosen;
         chosen_token = process (processor self) chosen_text chosen_image_inputs
                          (max_length self);
         reject_text = render_chat (processor self) reject;
         reject_image_inputs = process_vision_info (processor self) reject;
         reject_token = process (processor self) reject_text reject_image_inputs
                          (max_length self)
     in
     ebind (force_eos_and_mask True (tokenizer self) (response_template self)
              (encoding.truncate chosen_token) (encoding.truncate reject_token))
       (\<lambda>(c_ids, c_mask, r_ids, r_mask, c_loss, r_loss).
     ebind (lookup_feature (pixel_values chosen_token)) (\<lambda>c_pixels.
     ebind (lookup_feature (pixel_values reject_token)) (\<lambda>r_pixels.
     ebind (lookup_feature (image_grid_thw chosen_token)) (\<lambda>c_grid.
     ebind (lookup_feature (image_grid_thw reject_token)) (\<lambda>r_grid.
       Inr (Item11 c_ids c_mask r_ids r_mask c_loss r_loss
              c_pixels r_pixels c_grid r_grid extra))))))))))))"

text \<open>
  The part of \<open>QwenRewardDataset.__getitem__\<close> after the two cleaning loops, as a
  function of the conversations it renders and processes.
\<close>

definition qwen_encode ::
  "('i, 'v, 'p, 'g) qwen_reward_dataset \<Rightarrow> 'i turn pyval \<Rightarrow> 'i turn pyval \<Rightarrow> 'i turn pyval
     \<Rightarrow> error + ('i turn pyval, 'p, 'g) item" where
  "qwen_encode self conv_c conv_r extra1 =
     (let chosen_token = process (processor self) (render_chat (processor self) conv_c)
                           (process_vision_info (processor self) conv_c) (max_length self);
          reject_token = process (processor self) (render_chat (processor self) conv_r)
                           (process_vision_info (processor self) conv_r) (max_length self)
      in
      ebind (force_eos_and_mask True (tokenizer self) (response_template self)
               (encoding.truncate chosen_token) (encoding.truncate reject_token))
        (\<lambda>(c_ids, c_mask, r_ids, r_mask, c_loss, r_loss).
      ebind (lookup_feature (pixel_values chosen_token)) (\<lambda>c_pixels.
      ebind (lookup_feature (pixel_values reject_token)) (\<lambda>r_pixels.
      ebind (lookup_feature (image_grid_thw chosen_token)) (\<lambda>c_grid.
      ebind (lookup_feature (image_grid_thw reject_token)) (\<lambda>r_grid.
        Inr (Item11 c_ids c_mask r_ids r_mask c_loss r_loss
               c_pixels r_pixels c_grid r_grid extra1)))))))"

section \<open>Specification predicates\<close>

text \<open>
  The response template matches in full at position \<open>i\<close>: it fits into the sequence from
  \<open>i\<close> on and agrees with it token by token.
\<close>

definition full_match :: "int list \<Rightarrow> int list \<Rightarrow> nat \<Rightarrow> bool" where
  "full_match ids template i =
     (i + length template \<le> length ids
      \<and> (\<forall>k\<in>set [0..<length template]. ids ! (i + k) = template ! k))"

text \<open>
  Position \<open>p\<close> lies in an answer span: some full match ends before \<open>p\<close>, and no
  end-of-sequence id occurs from the end of that match up to, but excluding, \<open>p\<close>. So
  \<open>p\<close> is at or before the first end-of-sequence id after the match, or anywhere up to
  the last index when none follows.
\<close>

definition in_answer_span :: "int list \<Rightarrow> int list \<Rightarrow> int \<Rightarrow> nat \<Rightarrow> bool" where
  "in_answer_span ids template eos p =
     (\<exists>i\<in>set [0..<length ids].
        full_match ids template i \<and> i + length template \<le> p
        \<and> (\<forall>j\<in>set [i + length template..<p]. ids ! j \<noteq> eos))"

text \<open>The loss mask is 1 exactly on the answer spans and 0 elsewhere.\<close>

definition marks_answer_spans :: "int list \<Rightarrow> int list \<Rightarrow> int \<Rightarrow> int list \<Rightarrow> bool" where
  "marks_answer_spans ids template eos loss_mask =
     (length loss_mask = length ids
      \<and> (\<forall>p\<in>set [0..<length ids].
            loss_mask ! p = (if in_answer_span ids template eos p then 1 else 0)))"

text \<open>The span condition for one candidate \<open>i\<close>, as the loop body decides it.\<close>

definition span_cond :: "int list \<Rightarrow> int list \<Rightarrow> int \<Rightarrow> nat \<Rightarrow> nat \<Rightarrow> bool" where
  "span_cond ids rt eos i p =
     (matches_at ids rt i \<and> i + length rt \<le> p
      \<and> (\<forall>j\<in>set [i + length rt..<p]. ids ! j \<noteq> eos))"

text \<open>
  The segment-id row that the packed batch is specified to carry: the \<open>k\<close>-th chosen
  sequence (counting from 1) is marked \<open>k\<close>, the \<open>k\<close>-th rejected sequence \<open>k + N\<close>,
  chosen sequences first. \<open>seg_rows\<close> is the same row built block by block.
\<close>

fun seg_rows :: "int \<Rightarrow> int list list \<Rightarrow> int list list" where
  "seg_rows idx [] = []"
| "seg_rows idx (s # ss) = replicate (length s) idx # seg_rows (idx + 1) ss"

definition segment_ids :: "('x, 'p, 'g) item list \<Rightarrow> int list" where
  "segment_ids item_list =
     concat (map (\<lambda>k. replicate (length (chosen_id (item_list ! k))) (int k + 1))
               [0..<length item_list])
     @ concat (map (\<lambda>k. replicate (length (reject_id (item_list ! k)))
                            (int k + 1 + int (length item_list)))
                 [0..<length item_list])"

text \<open>The packed token row without alignment padding.\<close>

definition packed_tokens :: "('x, 'p, 'g) item list \<Rightarrow> int list" where
  "packed_tokens item_list = concat (map chosen_id item_list) @ concat (map reject_id item_list)"

text \<open>The number of pad positions appended for an alignment factor \<open>m\<close>.\<close>

definition padding_len :: "int \<Rightarrow> nat \<Rightarrow> nat" where
  "padding_len m n =
     (if m > 1 \<and> int n mod m \<noteq> 0 then nat (m - int n mod m) else 0)"

text \<open>
  Both sides of an item end in the end-of-sequence id, with the attention mask set there.
\<close>

definition ends_with_eos :: "tokenizer \<Rightarrow> ('x, 'p, 'g) item \<Rightarrow> bool" where
  "ends_with_eos tok it =
     (chosen_id it \<noteq> [] \<and> last (chosen_id it) = eos_token_id tok
      \<and> chosen_mask it \<noteq> [] \<and> last (chosen_mask it) = 1
      \<and> reject_id it \<noteq> [] \<and> last (reject_id it) = eos_token_id tok
      \<and> rejects_mask it \<noteq> [] \<and> last (rejects_mask it) = 1)"

text \<open>Both loss masks are the attention masks.\<close>

definition loss_is_attention :: "('x, 'p, 'g) item \<Rightarrow> bool" where
  "loss_is_attention it =
     (chosen_loss_mask it = chosen_mask it \<and> reject_loss_mask it = rejects_mask it)"

text \<open>
  Both loss masks mark exactly the answer spans of the tokenized response template.
\<close>

definition loss_marks_answers :: "tokenizer \<Rightarrow> string \<Rightarrow> ('x, 'p, 'g) item \<Rightarrow> bool" where
  "loss_marks_answers tok template it =
     (marks_answer_spans (chosen_id it) (input_ids (encode tok template None))
        (eos_token_id tok) (chosen_loss_mask it)
      \<and> marks_answer_spans (reject_id it) (input_ids (encode tok template None))
          (eos_token_id tok) (reject_loss_mask it))"


text \<open>
  For the content entries of \<open>QwenRewardDataset\<close>: an entry typed as image whose image
  field is present and \<open>None\<close>; an entry that has the keys the loop body reads; and an
  entry with the null fields removed as the loop body removes them.
\<close>

definition null_image :: "'i entry \<Rightarrow> bool" where
  "null_image m = (m ''type'' = Some (Str ''image'') \<and> m ''image'' = Some Null)"

definition keyed :: "'i entry \<Rightarrow> bool" where
  "keyed m = (m ''type'' \<noteq> None \<and> (m ''type'' = Some (Str ''image'') \<longrightarrow> m ''image'' \<noteq> None))"

definition strip_nulls :: "'i entry \<Rightarrow> 'i entry" where
  "strip_nulls m =
     (if m ''type'' = Some (Str ''image'') \<and> m ''text'' = Some Null then m(''text'' := None)
      else if m ''type'' = Some (Str ''text'') \<and> m ''image'' = Some Null
      then m(''image'' := None)
      else m)"

text \<open>All content entries of a conversation, and the conversation with nulls removed.\<close>

definition entries :: "'i turn list \<Rightarrow> 'i entry list" where
  "entries turns = concat (map content turns)"

definition strip_turns :: "'i turn list \<Rightarrow> 'i turn list" where
  "strip_turns turns = map (\<lambda>d. d\<lparr>content := map strip_nulls (content d)\<rparr>) turns"


text \<open>The margin of a raw record, 0 when the field is absent or \<open>None\<close>.\<close>

definition margin_or_zero :: "'m raw_record \<Rightarrow> 'm pyval" where
  "margin_or_zero data =
     (case data ''margin'' of
        None \<Rightarrow> PyNum 0
      | Some v \<Rightarrow> if v = PyNone then PyNum 0 else v)"

text \<open>The token count of a prompt: the sum of its attention mask.\<close>

definition prompt_ids_len :: "tokenizer \<Rightarrow> int \<Rightarrow> string \<Rightarrow> int" where
  "prompt_ids_len tok ml s = sum_list (attention_mask (encode tok s (Some ml)))"


section \<open>Small instances\<close>

text \<open>
  A tokenizer with one token per character (\<open>#\<close> is the end-of-sequence string, with id
  2), truncating to \<open>max_length\<close>, and datasets of one example built on it.
\<close>

definition toy_token :: "char \<Rightarrow> int" where
  "toy_token c =
     (if c = CHR ''#'' then 2 else if c = CHR ''A'' then 7 else if c = CHR '':'' then 8 else 5)"

definition toy_encode :: "string \<Rightarrow> int option \<Rightarrow> encoding" where
  "toy_encode text ml =
     (let ids = (case ml of None \<Rightarrow> map toy_token text
                 | Some n \<Rightarrow> take (nat n) (map toy_token text))
      in \<lparr>input_ids = ids, attention_mask = replicate (length ids) 1\<rparr>)"

definition toy_tokenizer :: tokenizer where
  "toy_tokenizer =
     \<lparr>encode = toy_encode, eos_token = ''#'', eos_token_id = 2, pad_token_id = 0\<rparr>"

definition toy_dataset :: "int \<Rightarrow> string option \<Rightarrow> string \<Rightarrow> string \<Rightarrow> unit reward_dataset" where
  "toy_dataset ml template c r =
     \<lparr>tokenizer = toy_tokenizer, max_length = ml, is_dpo = False, multiple_of = 1,
      input_template = None, prompt_key = None, chosen_key = Some ''chosen'',
      rejected_key = Some ''rejected'', apply_chat_template = NotSet,
      response_template = template,
      prompts = [PyStr ''Q?''], chosens = [PyStr c], rejects = [PyStr r],
      extras = [PyNum 0]\<rparr>"

definition toy_turns :: "string \<Rightarrow> unit turn pyval" where
  "toy_turns s =
     PyList [\<lparr>role = ''assistant'',
              content = [[''type'' \<mapsto> Str ''text'', ''text'' \<mapsto> Str s,
                          ''image'' \<mapsto> Null]]\<rparr>]"

definition toy_render :: "unit turn pyval \<Rightarrow> string" where
  "toy_render v =
     (case v of
        PyList ts \<Rightarrow>
          concat (map (\<lambda>d. concat (map (\<lambda>m. case m ''text'' of Some (Str s) \<Rightarrow> s | _ \<Rightarrow> [])
                                       (content d))) ts)
      | _ \<Rightarrow> [])"

definition toy_processor :: "(unit, unit, unit, unit) processor" where
  "toy_processor =
     \<lparr>render_chat = toy_render, process_vision_info = (\<lambda>_. ()),
      process = (\<lambda>text images ml.
        encoding.extend (toy_encode text (Some ml))
          \<lparr>pixel_values = Some (), image_grid_thw = Some ()\<rparr>)\<rparr>"

definition toy_qwen_dataset ::
  "int \<Rightarrow> string option \<Rightarrow> string \<Rightarrow> string \<Rightarrow> (unit, unit, unit, unit) qwen_reward_dataset" where
  "toy_qwen_dataset ml template c r =
     \<lparr>tokenizer = toy_tokenizer, max_length = ml, is_dpo = False, multiple_of = 1,
      input_template = None, prompt_key = None, chosen_key = Some ''chosen'',
      rejected_key = Some ''rejected'', apply_chat_template = NotSet,
      response_template = template,
      prompts = [PyStr []], chosens = [toy_turns c], rejects = [toy_turns r],
      extras = [PyNum 0], processor = toy_processor\<rparr>"


definition toy_packer :: "int \<Rightarrow> unit reward_dataset" where
  "toy_packer m = (toy_dataset 100 None [] [])\<lparr>multiple_of := m\<rparr>"

definition toy_items :: "(unit, unit, unit) item list" where
  "toy_items =
     [Item5 [11, 12, 13] [1, 1, 1] [21, 22, 23, 24] [1, 1, 1, 1] (),
      Item5 [14, 15, 16, 17, 18] [1, 1, 1, 1, 1] [25, 26] [1, 1] ()]"

text \<open>Two 7-tuples with loss masks of different lengths.\<close>

definition toy_loss_items :: "(unit, unit, unit) item list" where
  "toy_loss_items =
     [Item7 [5, 7, 2] [1, 1, 1] [5, 8, 2] [1, 1, 1] [0, 1, 1] [0, 1, 1] (),
      Item7 [7, 2] [1, 1] [2] [1] [1, 1] [1] ()]"

text \<open>Content entries with null fields, and a dataset whose rejected side has a null image.\<close>

definition toy_bad_entry :: "unit entry" where
  "toy_bad_entry = [''type'' \<mapsto> Str ''image'', ''image'' \<mapsto> Null]"

definition toy_image_entry :: "unit entry" where
  "toy_image_entry = [''type'' \<mapsto> Str ''image'', ''text'' \<mapsto> Null, ''image'' \<mapsto> Image ()]"

definition toy_text_entry :: "unit entry" where
  "toy_text_entry = [''type'' \<mapsto> Str ''text'', ''text'' \<mapsto> Str ''hi'', ''image'' \<mapsto> Null]"

definition toy_good_turns :: "unit turn list" where
  "toy_good_turns = [\<lparr>role = ''user'', content = [toy_image_entry, toy_text_entry]\<rparr>]"

definition toy_bad_turns :: "unit turn list" where
  "toy_bad_turns = [\<lparr>role = ''user'', content = [toy_text_entry, toy_bad_entry]\<rparr>]"

definition toy_bad_dataset :: "(unit, unit, unit, unit) qwen_reward_dataset" where
  "toy_bad_dataset =
     (toy_qwen_dataset 100 None [] [])
       \<lparr>chosens := [PyList toy_good_turns], rejects := [PyList toy_bad_turns]\<rparr>"


text \<open>A dataset in DPO mode with \<open>max_length = 6\<close>, and raw records for it.\<close>

definition toy_format :: "string \<Rightarrow> unit pyval \<Rightarrow> string" where
  "toy_format t p = (case p of PyStr s \<Rightarrow> t @ s | _ \<Rightarrow> t)"

definition toy_dpo :: "bool \<Rightarrow> unit reward_dataset" where
  "toy_dpo dpo =
     (toy_dataset 6 None [] [])
       \<lparr>is_dpo := dpo, prompt_key := Some ''prompt'', prompts := [], chosens := [],
        rejects := [], extras := []\<rparr>"

definition toy_record :: "string \<Rightarrow> unit raw_record" where
  "toy_record p =
     [''prompt'' \<mapsto> PyStr p, ''chosen'' \<mapsto> PyStr ''A:4'', ''rejected'' \<mapsto> PyStr ''A:5'',
      ''margin'' \<mapsto> PyNum 3]"



text \<open>A dataset whose conversations have null fields to remove and no null image.\<close>

definition toy_good_dataset :: "(unit, unit, unit, unit) qwen_reward_dataset" where
  "toy_good_dataset =
     (toy_qwen_dataset 100 None [] [])
       \<lparr>chosens := [PyList toy_good_turns], rejects := [PyList toy_good_turns]\<rparr>"

section \<open>Properties of the loss-mask locator\<close>

lemmas toy_defs = toy_dataset_def toy_qwen_dataset_def toy_tokenizer_def toy_encode_def
  toy_token_def toy_turns_def toy_render_def toy_processor_def toy_packer_def toy_items_def

lemmas eval_defs = qwen_getitem_def getitem_def py_index_def ebind_def clean_turn_def
  clean_entry_def force_eos_and_mask_def set_last_def loss_masks_def locate_spans_def
  candidates_def span_step_def matches_at_def scan_eos_def fill_slice_def lookup_feature_def
  build_text_def rstrip_newline_def endswith_def Let_def
  encoding.truncate_def encoding.extend_def upt_rec_numeral

lemma ebind_Inr_iff: "ebind r f = Inr y \<longleftrightarrow> (\<exists>x. r = Inr x \<and> f x = Inr y)"
  by (cases r) (simp_all add: ebind_def)

lemma fill_slice_length: "length (fill_slice m s e) = length m"
  by (simp add: fill_slice_def)

lemma fill_slice_nth:
  "p < length m \<Longrightarrow> fill_slice m s e ! p = (if s \<le> p \<and> int p < e then 1 else m ! p)"
  by (simp add: fill_slice_def nth_enumerate_eq)

lemma matches_at_full_match:
  assumes rt: "rt \<noteq> []"
  shows "matches_at ids rt i \<longleftrightarrow> full_match ids rt i"
proof
  assume m: "matches_at ids rt i"
  then have "min (length ids - i) (length rt) = length rt"
    by (simp add: matches_at_def)
  with rt have len: "i + length rt \<le> length ids"
    by (cases rt) auto
  from m have eq: "take (length rt) (drop i ids) = rt" by (simp add: matches_at_def)
  have "ids ! (i + k) = rt ! k" if "k < length rt" for k
  proof -
    have "rt ! k = take (length rt) (drop i ids) ! k" using eq by simp
    also have "\<dots> = ids ! (i + k)" using that len by simp
    finally show ?thesis by simp
  qed
  with len show "full_match ids rt i" by (simp add: full_match_def)
next
  assume f: "full_match ids rt i"
  then have len: "i + length rt \<le> length ids" by (simp add: full_match_def)
  have "take (length rt) (drop i ids) = rt"
  proof (rule nth_equalityI)
    show "length (take (length rt) (drop i ids)) = length rt" using len by simp
  next
    fix k assume "k < length (take (length rt) (drop i ids))"
    then have "k < length rt" by simp
    then show "take (length rt) (drop i ids) ! k = rt ! k"
      using f len by (simp add: full_match_def)
  qed
  then show "matches_at ids rt i" using len by (simp add: matches_at_def)
qed

lemma scan_eos_Some:
  "scan_eos ids eos s = Some j \<Longrightarrow>
     s \<le> j \<and> j < length ids \<and> ids ! j = eos \<and> (\<forall>k. s \<le> k \<and> k < j \<longrightarrow> ids ! k \<noteq> eos)"
proof -
  assume a: "scan_eos ids eos s = Some j"
  then obtain n where n: "n < length [s..<length ids]" "ids ! ([s..<length ids] ! n) = eos"
     "j = [s..<length ids] ! n" "\<forall>q<n. ids ! ([s..<length ids] ! q) \<noteq> eos"
    unfolding scan_eos_def find_Some_iff by blast
  then have j: "j = s + n" "s + n < length ids" by auto
  have "ids ! k \<noteq> eos" if "s \<le> k" "k < j" for k
  proof -
    have "k - s < n" using that j by arith
    with n(4) have "ids ! ([s..<length ids] ! (k - s)) \<noteq> eos" by blast
    moreover have "[s..<length ids] ! (k - s) = k" using that j by simp
    ultimately show ?thesis by simp
  qed
  with n j show ?thesis by auto
qed

lemma scan_eos_None:
  "scan_eos ids eos s = None \<Longrightarrow> s \<le> k \<Longrightarrow> k < length ids \<Longrightarrow> ids ! k \<noteq> eos"
  by (auto simp: scan_eos_def find_None_iff)

lemma span_step_effect:
  assumes ne: "ids \<noteq> []" and le: "last ids = eos" and lm: "length m = length ids"
    and rt: "rt \<noteq> []"
    and st: "span_step reset fb eos ids rt i (m, ev) = Inr (m1, ev1)"
  shows "length m1 = length ids
     \<and> (\<forall>p<length ids. m1 ! p = (if span_cond ids rt eos i p then 1 else m ! p))"
proof (cases "matches_at ids rt i")
  case False
  with st lm show ?thesis by (simp add: span_step_def span_cond_def)
next
  case True
  then have bound: "i + length rt \<le> length ids"
    using rt by (simp add: matches_at_full_match full_match_def)
  let ?s = "i + length rt"
  show ?thesis
  proof (cases "scan_eos ids eos ?s")
    case None
    have "?s = length ids"
    proof (rule ccontr)
      assume "?s \<noteq> length ids"
      with bound have "?s \<le> length ids - 1" "length ids - 1 < length ids" by auto
      from scan_eos_None [OF None this] have "ids ! (length ids - 1) \<noteq> eos" .
      with ne le show False by (simp add: last_conv_nth)
    qed
    moreover have "\<exists>x. m1 = fill_slice m ?s x"
      using st True None
      by (auto simp: span_step_def Let_def ebind_def split: end_var.splits if_splits)
    ultimately show ?thesis using lm
      by (auto simp: fill_slice_length fill_slice_nth span_cond_def)
  next
    case (Some j)
    have e: "m1 = fill_slice m ?s (int j + 1)"
      using st True Some
      by (auto simp: span_step_def Let_def ebind_def split: end_var.splits if_splits)
    note J = scan_eos_Some [OF Some]
    have "m1 ! p = (if span_cond ids rt eos i p then 1 else m ! p)" if p: "p < length ids" for p
    proof -
      have "span_cond ids rt eos i p \<longleftrightarrow> ?s \<le> p \<and> p \<le> j"
      proof
        assume c: "span_cond ids rt eos i p"
        then have sp: "?s \<le> p" and no: "\<forall>q\<in>set [?s..<p]. ids ! q \<noteq> eos"
          by (auto simp: span_cond_def)
        have "p \<le> j"
        proof (rule ccontr)
          assume "\<not> p \<le> j"
          with J have "j \<in> set [?s..<p]" by auto
          with no J show False by blast
        qed
        with sp show "?s \<le> p \<and> p \<le> j" by simp
      next
        assume "?s \<le> p \<and> p \<le> j"
        with J True show "span_cond ids rt eos i p" by (auto simp: span_cond_def)
      qed
      then show ?thesis using e p lm by (auto simp: fill_slice_nth)
    qed
    then show ?thesis using e lm by (simp add: fill_slice_length)
  qed
qed

lemma span_loop_effect:
  assumes ne: "ids \<noteq> []" and le: "last ids = eos" and rt: "rt \<noteq> []"
  shows "length m = length ids \<Longrightarrow>
     span_loop reset fb eos ids rt cs (m, ev) = Inr (m', ev') \<Longrightarrow>
     length m' = length ids
     \<and> (\<forall>p<length ids. m' ! p = (if \<exists>i\<in>set cs. span_cond ids rt eos i p then 1 else m ! p))"
proof (induction cs arbitrary: m ev)
  case Nil
  then show ?case by simp
next
  case (Cons i cs)
  from Cons.prems(2) obtain m1 ev1 where
    s1: "span_step reset fb eos ids rt i (m, ev) = Inr (m1, ev1)"
    and s2: "span_loop reset fb eos ids rt cs (m1, ev1) = Inr (m', ev')"
    by (auto split: sum.splits)
  from span_step_effect [OF ne le Cons.prems(1) rt s1]
  have a: "length m1 = length ids"
    and b: "\<forall>p<length ids. m1 ! p = (if span_cond ids rt eos i p then 1 else m ! p)"
    by auto
  from Cons.IH [OF a s2] have c: "length m' = length ids"
    and d: "\<forall>p<length ids. m' ! p = (if \<exists>i\<in>set cs. span_cond ids rt eos i p then 1 else m1 ! p)"
    by auto
  show ?case using b c d by auto
qed

lemma locate_spans_marks:
  assumes ne: "ids \<noteq> []" and le: "last ids = eos"
    and loc: "locate_spans reset fb eos ids rt ev = Inr (m', ev')"
  shows "marks_answer_spans ids rt eos m'"
proof -
  from loc obtain t0 ts where rt: "rt = t0 # ts"
    by (cases rt) (auto simp: locate_spans_def candidates_def ebind_def)
  let ?cs = "filter (\<lambda>i. ids ! i = t0) [0..<length ids]"
  from loc rt have sl: "span_loop reset fb eos ids rt ?cs (replicate (length ids) 0, ev) = Inr (m', ev')"
    by (simp add: locate_spans_def candidates_def ebind_def)
  have lz: "length (replicate (length ids) (0::int)) = length ids" by simp
  have rtne: "rt \<noteq> []" using rt by simp
  from span_loop_effect [OF ne le rtne lz sl]
  have len: "length m' = length ids"
    and nth: "\<forall>p<length ids. m' ! p = (if \<exists>i\<in>set ?cs. span_cond ids rt eos i p then 1 else 0)"
    by auto
  have "(\<exists>i\<in>set ?cs. span_cond ids rt eos i p) \<longleftrightarrow> in_answer_span ids rt eos p" for p
  proof -
    have "i \<in> set ?cs" if "matches_at ids rt i" for i
    proof -
      from that have f: "full_match ids rt i" by (simp add: matches_at_full_match [OF rtne])
      then have "i < length ids" using rt by (simp add: full_match_def)
      moreover have "ids ! i = t0"
      proof -
        from f have "\<forall>k\<in>set [0..<length rt]. ids ! (i + k) = rt ! k"
          by (simp add: full_match_def)
        moreover have "0 \<in> set [0..<length rt]" using rt by simp
        ultimately have "ids ! (i + 0) = rt ! 0" by blast
        then show ?thesis using rt by simp
      qed
      ultimately show ?thesis by simp
    qed
    note mem = this
    have lt: "i < length ids" if "full_match ids rt i" for i
      using that rt by (simp add: full_match_def)
    show ?thesis
    proof
      assume "\<exists>i\<in>set ?cs. span_cond ids rt eos i p"
      then obtain i where c: "span_cond ids rt eos i p" by blast
      then have f: "full_match ids rt i"
        by (simp add: span_cond_def matches_at_full_match [OF rtne])
      from lt [OF f] have "i \<in> set [0..<length ids]" by simp
      with c f show "in_answer_span ids rt eos p"
        unfolding in_answer_span_def span_cond_def by blast
    next
      assume "in_answer_span ids rt eos p"
      then obtain i where f: "full_match ids rt i" and r: "i + length rt \<le> p"
        "\<forall>j\<in>set [i + length rt..<p]. ids ! j \<noteq> eos"
        unfolding in_answer_span_def by blast
      from f have m: "matches_at ids rt i" by (simp add: matches_at_full_match [OF rtne])
      with r have "span_cond ids rt eos i p" by (simp add: span_cond_def)
      with mem [OF m] show "\<exists>i\<in>set ?cs. span_cond ids rt eos i p" by blast
    qed
  qed
  with len nth show ?thesis by (simp add: marks_answer_spans_def)
qed


section \<open>Properties of \<open>__getitem__\<close>\<close>

lemma set_last_Inr:
  "set_last xs v = Inr ys \<Longrightarrow> ys \<noteq> [] \<and> last ys = v \<and> length ys = length xs"
  by (auto simp: set_last_def split: if_splits)

lemma force_eos_and_mask_Inr:
  assumes "force_eos_and_mask fb tok tpl ct rt = Inr (c_ids, c_mask, r_ids, r_mask, cl, rl)"
  shows "c_ids \<noteq> [] \<and> last c_ids = eos_token_id tok \<and> c_mask \<noteq> [] \<and> last c_mask = 1
       \<and> r_ids \<noteq> [] \<and> last r_ids = eos_token_id tok \<and> r_mask \<noteq> [] \<and> last r_mask = 1
       \<and> loss_masks fb tok tpl c_ids c_mask r_ids r_mask = Inr (cl, rl)"
proof -
  from assms obtain a b c d where
    a: "set_last (input_ids ct) (eos_token_id tok) = Inr a"
    and b: "set_last (input_ids rt) (eos_token_id tok) = Inr b"
    and c: "set_last (attention_mask ct) 1 = Inr c"
    and d: "set_last (attention_mask rt) 1 = Inr d"
    and r: "ebind (loss_masks fb tok tpl a c b d)
              (\<lambda>(chosen_loss_mask, reject_loss_mask).
                 Inr (a, c, b, d, chosen_loss_mask, reject_loss_mask))
            = Inr (c_ids, c_mask, r_ids, r_mask, cl, rl)"
    unfolding force_eos_and_mask_def ebind_Inr_iff by blast
  from r have eqs: "a = c_ids" "c = c_mask" "b = r_ids" "d = r_mask"
    and lm: "loss_masks fb tok tpl a c b d = Inr (cl, rl)"
    by (auto simp: ebind_Inr_iff)
  from set_last_Inr [OF a] set_last_Inr [OF b] set_last_Inr [OF c] set_last_Inr [OF d] eqs lm
  show ?thesis by simp
qed

lemma loss_masks_None:
  "loss_masks fb tok None c_ids c_mask r_ids r_mask = Inr (cl, rl) \<Longrightarrow> cl = c_mask \<and> rl = r_mask"
  by (simp add: loss_masks_def)

lemma loss_masks_Some:
  assumes "loss_masks fb tok (Some template) c_ids c_mask r_ids r_mask = Inr (cl, rl)"
    and "c_ids \<noteq> []" "last c_ids = eos_token_id tok"
    and "r_ids \<noteq> []" "last r_ids = eos_token_id tok"
  shows "marks_answer_spans c_ids (input_ids (encode tok template None)) (eos_token_id tok) cl
       \<and> marks_answer_spans r_ids (input_ids (encode tok template None)) (eos_token_id tok) rl"
proof -
  let ?rt = "input_ids (encode tok template None)"
  from assms(1) obtain ev ev' where
    c: "locate_spans False fb (eos_token_id tok) c_ids ?rt Unbound = Inr (cl, ev)"
    and r: "locate_spans True fb (eos_token_id tok) r_ids ?rt ev = Inr (rl, ev')"
    by (auto simp: loss_masks_def Let_def ebind_Inr_iff)
  from locate_spans_marks [OF assms(2,3) c] locate_spans_marks [OF assms(4,5) r]
  show ?thesis by simp
qed

lemma getitem_Inr:
  assumes "getitem self idx = Inr it"
  shows "\<exists>ct rt. force_eos_and_mask False (tokenizer self) (response_template self) ct rt
           = Inr (chosen_id it, chosen_mask it, reject_id it, rejects_mask it,
                  chosen_loss_mask it, reject_loss_mask it)"
  using assms by (auto simp: getitem_def Let_def ebind_Inr_iff) blast

lemma qwen_getitem_Inr:
  assumes "qwen_getitem self idx = Inr it"
  shows "\<exists>ct rt. force_eos_and_mask True (tokenizer self) (response_template self) ct rt
           = Inr (chosen_id it, chosen_mask it, reject_id it, rejects_mask it,
                  chosen_loss_mask it, reject_loss_mask it)"
  using assms by (auto simp: qwen_getitem_def Let_def ebind_Inr_iff) blast

section \<open>Properties of the packed batch assembler\<close>

lemma seg_rows_map:
  "seg_rows idx ss = map (\<lambda>k. replicate (length (ss ! k)) (idx + int k)) [0..<length ss]"
proof (induction ss arbitrary: idx)
  case Nil
  then show ?case by simp
next
  case (Cons s ss)
  have "map (\<lambda>k. replicate (length ((s # ss) ! k)) (idx + int k)) [0..<length (s # ss)]
        = replicate (length s) idx
          # map (\<lambda>k. replicate (length (ss ! k)) (idx + 1 + int k)) [0..<length ss]"
    by (simp add: map_upt_Suc add.assoc del: upt_Suc)
  with Cons.IH [of "idx + 1"] show ?case by simp
qed

lemma seg_rows_append: "seg_rows idx (xs @ ys) = seg_rows idx xs @ seg_rows (idx + int (length xs)) ys"
  by (induction xs arbitrary: idx) (simp_all add: add.assoc)

lemma seg_rows_length: "length (seg_rows idx ss) = length ss"
  by (induction ss arbitrary: idx) simp_all

lemma packing_loop_Item5:
  "\<forall>it\<in>set item_list. is_Item5 it \<Longrightarrow>
   packing_loop n item_list (ex, ci, cam, csl, ri, ram, rsl, index) =
     Inr (ex @ map item_extra item_list,
          ci @ map chosen_id item_list,
          cam @ seg_rows index (map chosen_id item_list),
          csl @ map (\<lambda>it. int (length (chosen_id it))) item_list,
          ri @ map reject_id item_list,
          ram @ seg_rows (index + n) (map reject_id item_list),
          rsl @ map (\<lambda>it. int (length (reject_id it))) item_list,
          index + int (length item_list))"
proof (induction item_list arbitrary: ex ci cam csl ri ram rsl index)
  case Nil
  then show ?case by simp
next
  case (Cons it item_list)
  then obtain a b c d x where it: "it = Item5 a b c d x"
    by (cases it) auto
  from Cons.prems have rest: "\<forall>it\<in>set item_list. is_Item5 it" by simp
  show ?case
    by (simp add: it Cons.IH [OF rest] add.commute add.left_commute)
qed

lemma packing_loop_not_Item5:
  "\<exists>it\<in>set item_list. \<not> is_Item5 it \<Longrightarrow> packing_loop n item_list vars = Inl ValueError"
proof (induction item_list arbitrary: vars)
  case Nil
  then show ?case by simp
next
  case (Cons it item_list)
  obtain ex ci cam csl ri ram rsl index where v: "vars = (ex, ci, cam, csl, ri, ram, rsl, index)"
    by (cases vars) auto
  show ?case
  proof (cases it)
    case (Item5 a b c d x)
    with Cons.prems have "\<exists>it\<in>set item_list. \<not> is_Item5 it" by simp
    from Cons.IH [OF this] show ?thesis by (simp add: v Item5)
  next
    case Item7
    then show ?thesis by (simp add: v)
  next
    case Item11
    then show ?thesis by (simp add: v)
  qed
qed


lemma packing_collate_fn_Item5:
  assumes ne: "item_list \<noteq> []" and all5: "\<forall>it\<in>set item_list. is_Item5 it"
  shows "packing_collate_fn self item_list =
     Inr (packed_tokens item_list
            @ replicate (padding_len (multiple_of self) (length (packed_tokens item_list)))
                (pad_token_id (tokenizer self)),
          segment_ids item_list
            @ replicate (padding_len (multiple_of self) (length (packed_tokens item_list))) 0,
          map (\<lambda>it. int (length (chosen_id it))) item_list
            @ map (\<lambda>it. int (length (reject_id it))) item_list,
          map item_extra item_list)"
proof -
  have seg: "concat (seg_rows 1 (map chosen_id item_list)
                     @ seg_rows (1 + int (length item_list)) (map reject_id item_list))
             = segment_ids item_list"
  proof -
    have c: "map (\<lambda>k. replicate (length (map chosen_id item_list ! k)) (1 + int k))
               [0..<length item_list]
             = map (\<lambda>k. replicate (length (chosen_id (item_list ! k))) (int k + 1))
                 [0..<length item_list]"
      by (rule map_cong) (simp_all add: add.commute)
    have r: "map (\<lambda>k. replicate (length (map reject_id item_list ! k))
                          (1 + int (length item_list) + int k))
               [0..<length item_list]
             = map (\<lambda>k. replicate (length (reject_id (item_list ! k)))
                          (int k + 1 + int (length item_list)))
                 [0..<length item_list]"
      by (rule map_cong) (simp_all add: add.commute add.left_commute)
    show ?thesis
      by (simp only: seg_rows_map segment_ids_def concat_append length_map c r)
  qed
  have ne1: "map chosen_id item_list @ map reject_id item_list \<noteq> []" using ne by simp
  have ne2: "seg_rows 1 (map chosen_id item_list)
             @ seg_rows (1 + int (length item_list)) (map reject_id item_list) \<noteq> []"
    using ne by (cases item_list) simp_all
  have tok: "concat (map chosen_id item_list @ map reject_id item_list) = packed_tokens item_list"
    by (simp add: packed_tokens_def)
  have t1: "torch_cat (map chosen_id item_list @ map reject_id item_list)
            = Inr (packed_tokens item_list)"
    by (simp only: torch_cat_def ne1 if_False tok)
  have t2: "torch_cat (seg_rows 1 (map chosen_id item_list)
                       @ seg_rows (1 + int (length item_list)) (map reject_id item_list))
            = Inr (segment_ids item_list)"
    by (simp only: torch_cat_def ne2 if_False seg)
  have init: "packing_loop (int (length item_list)) item_list ([], [], [], [], [], [], [], 1)
     = Inr (map item_extra item_list, map chosen_id item_list,
            seg_rows 1 (map chosen_id item_list),
            map (\<lambda>it. int (length (chosen_id it))) item_list,
            map reject_id item_list,
            seg_rows (1 + int (length item_list)) (map reject_id item_list),
            map (\<lambda>it. int (length (reject_id it))) item_list,
            1 + int (length item_list))"
    by (simp only: packing_loop_Item5 [OF all5] append_Nil)
  show ?thesis
    by (simp add: packing_collate_fn_def init ebind_def t1 t2 padding_len_def Let_def)
qed









lemma sum_lengths:
  "sum_list (map (\<lambda>it. int (length (f it))) item_list) = int (length (concat (map f item_list)))"
  by (induction item_list) simp_all

lemma packed_seq_lens_sum:
  "sum_list (map (\<lambda>it. int (length (chosen_id it))) item_list
             @ map (\<lambda>it. int (length (reject_id it))) item_list)
   = int (length (packed_tokens item_list))"
  by (simp add: sum_lengths packed_tokens_def)

lemma padding_len_bounds:
  "(1 \<le> m \<longrightarrow> int n + int (padding_len m n) \<le> int n + m - 1)
   \<and> (1 < m \<longrightarrow> (int n + int (padding_len m n)) mod m = 0)
   \<and> (m \<le> 1 \<or> int n mod m = 0 \<longrightarrow> padding_len m n = 0)"
proof (cases "1 < m \<and> int n mod m \<noteq> 0")
  case False
  then show ?thesis by (auto simp: padding_len_def)
next
  case True
  then have m: "1 < m" and r: "int n mod m \<noteq> 0" by simp_all
  have pl: "int (padding_len m n) = m - int n mod m"
  proof -
    have "int n mod m < m" using m by simp
    then have "int n mod m \<le> m" by simp
    then show ?thesis using True by (simp add: padding_len_def)
  qed
  have pos: "0 < int n mod m"
  proof -
    have "0 \<le> int n mod m" using m by simp
    with r show ?thesis by simp
  qed
  have "(int n + (m - int n mod m)) mod m = 0"
  proof -
    have "int n + (m - int n mod m) = m + (int n - int n mod m)" by simp
    also have "\<dots> mod m = (int n - int n mod m) mod m" by simp
    also have "\<dots> = 0" by (simp add: minus_mod_eq_mult_div)
    finally show ?thesis .
  qed
  with pl pos m r show ?thesis by simp
qed





text \<open>
  C7, as amended. The packed length is at least the sum of the recorded lengths; it is at
  most that sum plus \<open>multiple_of - 1\<close> whenever \<open>multiple_of\<close> is at least 1; for
  \<open>multiple_of > 1\<close> it is divisible by \<open>multiple_of\<close>. The difference is filled on the
  right with the pad token id in the token row and with 0 in the segment row, and it is
  zero when \<open>multiple_of \<le> 1\<close> or the sum is already a multiple.
\<close>

theorem packing_alignment:
  assumes "item_list \<noteq> []" and "\<forall>it\<in>set item_list. is_Item5 it"
  shows "\<exists>ids seg lens ex.
     packing_collate_fn self item_list = Inr (ids, seg, lens, ex)
     \<and> sum_list lens \<le> int (length ids)
     \<and> (1 \<le> multiple_of self \<longrightarrow> int (length ids) \<le> sum_list lens + multiple_of self - 1)
     \<and> (1 < multiple_of self \<longrightarrow> int (length ids) mod multiple_of self = 0)
     \<and> ids = packed_tokens item_list
               @ replicate (nat (int (length ids) - sum_list lens)) (pad_token_id (tokenizer self))
     \<and> seg = segment_ids item_list @ replicate (nat (int (length ids) - sum_list lens)) 0
     \<and> (multiple_of self \<le> 1 \<or> sum_list lens mod multiple_of self = 0
          \<longrightarrow> int (length ids) = sum_list lens)"
proof -
  let ?n = "length (packed_tokens item_list)"
  let ?p = "padding_len (multiple_of self) ?n"
  let ?ids = "packed_tokens item_list @ replicate ?p (pad_token_id (tokenizer self))"
  let ?seg = "segment_ids item_list @ replicate ?p 0"
  let ?lens = "map (\<lambda>it. int (length (chosen_id it))) item_list
                 @ map (\<lambda>it. int (length (reject_id it))) item_list"
  have v: "packing_collate_fn self item_list = Inr (?ids, ?seg, ?lens, map item_extra item_list)"
    by (rule packing_collate_fn_Item5 [OF assms])
  have s: "sum_list ?lens = int ?n" by (rule packed_seq_lens_sum)
  have len: "int (length ?ids) = int ?n + int ?p" by simp
  have d: "nat (int (length ?ids) - sum_list ?lens) = ?p" unfolding s len by simp
  note b = padding_len_bounds [of "multiple_of self" ?n]
  have f1: "sum_list ?lens \<le> int (length ?ids)" unfolding s len by simp
  have f2: "1 \<le> multiple_of self \<longrightarrow> int (length ?ids) \<le> sum_list ?lens + multiple_of self - 1"
    using b unfolding s len by simp
  have f3: "1 < multiple_of self \<longrightarrow> int (length ?ids) mod multiple_of self = 0"
    using b unfolding s len by simp
  have f4: "?ids = packed_tokens item_list
       @ replicate (nat (int (length ?ids) - sum_list ?lens)) (pad_token_id (tokenizer self))"
    by (simp only: d)
  have f5: "?seg = segment_ids item_list @ replicate (nat (int (length ?ids) - sum_list ?lens)) 0"
    by (simp only: d)
  have f6: "multiple_of self \<le> 1 \<or> sum_list ?lens mod multiple_of self = 0
          \<longrightarrow> int (length ?ids) = sum_list ?lens"
    using b unfolding s len by simp
  show ?thesis
    by (rule exI [of _ ?ids], rule exI [of _ ?seg], rule exI [of _ ?lens],
        rule exI [of _ "map item_extra item_list"])
       (intro conjI v f1 f2 f3 f4 f5 f6)
qed

theorem packing_alignment_witness:
  "toy_items \<noteq> [] \<and> list_all is_Item5 toy_items \<and> 1 < multiple_of (toy_packer 8)
   \<and> packing_collate_fn (toy_packer 8) toy_items =
        Inr ([11, 12, 13, 14, 15, 16, 17, 18, 21, 22, 23, 24, 25, 26, 0, 0],
             [1, 1, 1, 2, 2, 2, 2, 2, 3, 3, 3, 3, 4, 4, 0, 0],
             [3, 5, 4, 2], [(), ()])
   \<and> int (length [11, 12, 13, 14, 15, 16, 17, 18, 21, 22, 23, 24, 25, 26, 0, 0::int])
       mod multiple_of (toy_packer 8) = 0"
proof -
  have h1: "toy_items \<noteq> []" by (simp add: toy_items_def)
  have h2: "\<forall>it\<in>set toy_items. is_Item5 it" by (simp add: toy_items_def)
  have m: "multiple_of (toy_packer 8) = 8" "pad_token_id (tokenizer (toy_packer 8)) = 0"
    by (simp_all add: toy_defs)
  from packing_alignment [OF h1 h2, of "toy_packer 8"] obtain ids seg lens ex where
    r: "packing_collate_fn (toy_packer 8) toy_items = Inr (ids, seg, lens, ex)"
    and a: "1 < multiple_of (toy_packer 8) \<longrightarrow> int (length ids) mod multiple_of (toy_packer 8) = 0"
    by auto
  have e: "packing_collate_fn (toy_packer 8) toy_items =
        Inr ([11, 12, 13, 14, 15, 16, 17, 18, 21, 22, 23, 24, 25, 26, 0, 0],
             [1, 1, 1, 2, 2, 2, 2, 2, 3, 3, 3, 3, 4, 4, 0, 0],
             [3, 5, 4, 2], [(), ()])"
    by code_simp
  from r e a m h1 h2 show ?thesis by (simp add: list_all_iff)
qed

text \<open>
  The upper bound of C7 as stated, without the condition on \<open>multiple_of\<close>, fails for
  \<open>multiple_of = 0\<close>: nothing is padded, and the sum plus \<open>0 - 1\<close> is below the length.
\<close>

theorem packing_upper_bound_counterexample:
  "packing_collate_fn (toy_packer 0) toy_items =
        Inr ([11, 12, 13, 14, 15, 16, 17, 18, 21, 22, 23, 24, 25, 26],
             [1, 1, 1, 2, 2, 2, 2, 2, 3, 3, 3, 3, 4, 4],
             [3, 5, 4, 2], [(), ()])
   \<and> \<not> int (length [11, 12, 13, 14, 15, 16, 17, 18, 21, 22, 23, 24, 25, 26 :: int])
         \<le> sum_list [3, 5, 4, 2] + multiple_of (toy_packer 0) - 1"
proof -
  have e: "packing_collate_fn (toy_packer 0) toy_items =
        Inr ([11, 12, 13, 14, 15, 16, 17, 18, 21, 22, 23, 24, 25, 26],
             [1, 1, 1, 2, 2, 2, 2, 2, 3, 3, 3, 3, 4, 4],
             [3, 5, 4, 2], [(), ()])"
    by code_simp
  have m: "multiple_of (toy_packer 0) = 0" by (simp add: toy_defs)
  from e m show ?thesis by simp
qed

section \<open>The claims about \<open>__getitem__\<close>\<close>

lemma force_eos_ends:
  assumes "force_eos_and_mask fb tok tpl ct rt
             = Inr (chosen_id it, chosen_mask it, reject_id it, rejects_mask it,
                    chosen_loss_mask it, reject_loss_mask it)"
  shows "ends_with_eos tok it"
    and "tpl = None \<Longrightarrow> loss_is_attention it"
    and "tpl = Some template \<Longrightarrow> loss_marks_answers tok template it"
proof -
  note f = force_eos_and_mask_Inr [OF assms]
  from f show "ends_with_eos tok it" by (simp add: ends_with_eos_def)
  show "loss_is_attention it" if "tpl = None"
  proof -
    from f that have "loss_masks fb tok None (chosen_id it) (chosen_mask it)
        (reject_id it) (rejects_mask it) = Inr (chosen_loss_mask it, reject_loss_mask it)"
      by simp
    from loss_masks_None [OF this] show ?thesis by (simp add: loss_is_attention_def)
  qed
  show "loss_marks_answers tok template it" if "tpl = Some template"
  proof -
    from f that have "loss_masks fb tok (Some template) (chosen_id it) (chosen_mask it)
        (reject_id it) (rejects_mask it) = Inr (chosen_loss_mask it, reject_loss_mask it)"
      by simp
    from loss_masks_Some [OF this] f show ?thesis by (simp add: loss_marks_answers_def)
  qed
qed

text \<open>
  C2. Every item that \<open>__getitem__\<close> of either dataset returns has, on the chosen and on
  the rejected side, the end-of-sequence id as last element of \<open>input_ids\<close> and 1 (true)
  as last element of \<open>attention_mask\<close>, whatever the tokenizer returned, so also when it
  truncated the text.
\<close>

theorem getitem_forces_eos:
  "(getitem self idx = Inr it \<longrightarrow> ends_with_eos (tokenizer self) it)
   \<and> (qwen_getitem qself qidx = Inr qit \<longrightarrow> ends_with_eos (tokenizer qself) qit)"
proof (intro conjI impI)
  assume "getitem self idx = Inr it"
  from getitem_Inr [OF this] show "ends_with_eos (tokenizer self) it"
    using force_eos_ends(1) by blast
next
  assume "qwen_getitem qself qidx = Inr qit"
  from qwen_getitem_Inr [OF this] show "ends_with_eos (tokenizer qself) qit"
    using force_eos_ends(1) by blast
qed

text \<open>
  C5. Without a response template, every item that \<open>__getitem__\<close> of either dataset
  returns has loss masks equal to the attention masks, on both sides.
\<close>

theorem no_template_loss_is_attention:
  "(response_template self = None \<and> getitem self idx = Inr it \<longrightarrow> loss_is_attention it)
   \<and> (response_template qself = None \<and> qwen_getitem qself qidx = Inr qit
        \<longrightarrow> loss_is_attention qit)"
proof (intro conjI impI)
  assume a: "response_template self = None \<and> getitem self idx = Inr it"
  then obtain ct rt where "force_eos_and_mask False (tokenizer self) (response_template self) ct rt
           = Inr (chosen_id it, chosen_mask it, reject_id it, rejects_mask it,
                  chosen_loss_mask it, reject_loss_mask it)"
    using getitem_Inr by blast
  from force_eos_ends(2) [OF this] a show "loss_is_attention it" by simp
next
  assume a: "response_template qself = None \<and> qwen_getitem qself qidx = Inr qit"
  then obtain ct rt where "force_eos_and_mask True (tokenizer qself) (response_template qself) ct rt
           = Inr (chosen_id qit, chosen_mask qit, reject_id qit, rejects_mask qit,
                  chosen_loss_mask qit, reject_loss_mask qit)"
    using qwen_getitem_Inr by blast
  from force_eos_ends(2) [OF this] a show "loss_is_attention qit" by simp
qed

text \<open>
  C1. With a response template, every item that \<open>__getitem__\<close> of either dataset returns
  has, on both sides, a loss mask that is 1 exactly at the positions that lie after a full
  contiguous match of the template tokens with no end-of-sequence id between the end of the
  match and the position (so at or before the first end-of-sequence id after the match, or
  up to the last index), and 0 everywhere else.
\<close>

theorem template_loss_marks_answers:
  "(response_template self = Some template \<and> getitem self idx = Inr it
      \<longrightarrow> loss_marks_answers (tokenizer self) template it)
   \<and> (response_template qself = Some qtemplate \<and> qwen_getitem qself qidx = Inr qit
        \<longrightarrow> loss_marks_answers (tokenizer qself) qtemplate qit)"
proof (intro conjI impI)
  assume a: "response_template self = Some template \<and> getitem self idx = Inr it"
  then obtain ct rt where "force_eos_and_mask False (tokenizer self) (response_template self) ct rt
           = Inr (chosen_id it, chosen_mask it, reject_id it, rejects_mask it,
                  chosen_loss_mask it, reject_loss_mask it)"
    using getitem_Inr by blast
  from force_eos_ends(3) [OF this] a show "loss_marks_answers (tokenizer self) template it"
    by simp
next
  assume a: "response_template qself = Some qtemplate \<and> qwen_getitem qself qidx = Inr qit"
  then obtain ct rt where "force_eos_and_mask True (tokenizer qself) (response_template qself) ct rt
           = Inr (chosen_id qit, chosen_mask qit, reject_id qit, rejects_mask qit,
                  chosen_loss_mask qit, reject_loss_mask qit)"
    using qwen_getitem_Inr by blast
  from force_eos_ends(3) [OF this] a show "loss_marks_answers (tokenizer qself) qtemplate qit"
    by simp
qed

lemma toy_getitem_truncated:
  "getitem (toy_dataset 4 None ''A:4'' ''A:5 #'') 0
     = Inr (Item7 [5, 5, 7, 2] [1, 1, 1, 1] [5, 5, 7, 2] [1, 1, 1, 1] [1, 1, 1, 1] [1, 1, 1, 1]
              (PyNum 0) :: (unit pyval, unit, unit) item)"
  by code_simp

lemma toy_qwen_getitem_truncated:
  "qwen_getitem (toy_qwen_dataset 4 None ''Q?A:4 #'' ''Q?A:5 #'') 0
     = Inr (Item11 [5, 5, 7, 2] [1, 1, 1, 1] [5, 5, 7, 2] [1, 1, 1, 1] [1, 1, 1, 1] [1, 1, 1, 1]
              () () () () (PyNum 0))"
  by (simp add: toy_defs eval_defs)

lemma toy_getitem_template:
  "getitem (toy_dataset 100 (Some ''A:'') ''A:4'' ''A:5 #'') 0
     = Inr (Item7 [5, 5, 7, 8, 5, 5, 2] [1, 1, 1, 1, 1, 1, 1]
              [5, 5, 7, 8, 5, 5, 2] [1, 1, 1, 1, 1, 1, 1]
              [0, 0, 0, 0, 1, 1, 1] [0, 0, 0, 0, 1, 1, 1] (PyNum 0)
            :: (unit pyval, unit, unit) item)"
  by code_simp

lemma toy_qwen_getitem_template:
  "qwen_getitem (toy_qwen_dataset 100 (Some ''A:'') ''Q?A:4 #'' ''Q?A:5 #'') 0
     = Inr (Item11 [5, 5, 7, 8, 5, 5, 2] [1, 1, 1, 1, 1, 1, 1]
              [5, 5, 7, 8, 5, 5, 2] [1, 1, 1, 1, 1, 1, 1]
              [0, 0, 0, 0, 1, 1, 1] [0, 0, 0, 0, 1, 1, 1] () () () () (PyNum 0))"
  by (simp add: toy_defs eval_defs)

theorem getitem_forces_eos_witness:
  "getitem (toy_dataset 4 None ''A:4'' ''A:5 #'') 0
     = Inr (Item7 [5, 5, 7, 2] [1, 1, 1, 1] [5, 5, 7, 2] [1, 1, 1, 1] [1, 1, 1, 1] [1, 1, 1, 1]
              (PyNum 0) :: (unit pyval, unit, unit) item)
   \<and> qwen_getitem (toy_qwen_dataset 4 None ''Q?A:4 #'' ''Q?A:5 #'') 0
     = Inr (Item11 [5, 5, 7, 2] [1, 1, 1, 1] [5, 5, 7, 2] [1, 1, 1, 1] [1, 1, 1, 1] [1, 1, 1, 1]
              () () () () (PyNum 0))
   \<and> ends_with_eos toy_tokenizer
        (Item7 [5, 5, 7, 2] [1, 1, 1, 1] [5, 5, 7, 2] [1, 1, 1, 1] [1, 1, 1, 1] [1, 1, 1, 1]
              (PyNum 0) :: (unit pyval, unit, unit) item)
   \<and> ends_with_eos toy_tokenizer
        (Item11 [5, 5, 7, 2] [1, 1, 1, 1] [5, 5, 7, 2] [1, 1, 1, 1] [1, 1, 1, 1] [1, 1, 1, 1]
              () () () () (PyNum 0 :: unit turn pyval))
   \<and> length (input_ids (toy_encode ''Q?A:4 #'' None)) = 7"
proof -
  have t: "tokenizer (toy_dataset 4 None ''A:4'' ''A:5 #'') = toy_tokenizer"
    "tokenizer (toy_qwen_dataset 4 None ''Q?A:4 #'' ''Q?A:5 #'') = toy_tokenizer"
    by (simp_all add: toy_dataset_def toy_qwen_dataset_def)
  have l: "length (input_ids (toy_encode ''Q?A:4 #'' None)) = 7"
    by (simp add: toy_encode_def)
  from getitem_forces_eos [of "toy_dataset 4 None ''A:4'' ''A:5 #''" 0 _
      "toy_qwen_dataset 4 None ''Q?A:4 #'' ''Q?A:5 #''" 0]
    toy_getitem_truncated toy_qwen_getitem_truncated l
  show ?thesis by (simp only: t) blast
qed

theorem no_template_loss_is_attention_witness:
  "response_template (toy_dataset 4 None ''A:4'' ''A:5 #'') = None
   \<and> getitem (toy_dataset 4 None ''A:4'' ''A:5 #'') 0
     = Inr (Item7 [5, 5, 7, 2] [1, 1, 1, 1] [5, 5, 7, 2] [1, 1, 1, 1] [1, 1, 1, 1] [1, 1, 1, 1]
              (PyNum 0) :: (unit pyval, unit, unit) item)
   \<and> response_template (toy_qwen_dataset 4 None ''Q?A:4 #'' ''Q?A:5 #'') = None
   \<and> qwen_getitem (toy_qwen_dataset 4 None ''Q?A:4 #'' ''Q?A:5 #'') 0
     = Inr (Item11 [5, 5, 7, 2] [1, 1, 1, 1] [5, 5, 7, 2] [1, 1, 1, 1] [1, 1, 1, 1] [1, 1, 1, 1]
              () () () () (PyNum 0))
   \<and> loss_is_attention
        (Item7 [5, 5, 7, 2] [1, 1, 1, 1] [5, 5, 7, 2] [1, 1, 1, 1] [1, 1, 1, 1] [1, 1, 1, 1]
              (PyNum 0) :: (unit pyval, unit, unit) item)
   \<and> loss_is_attention
        (Item11 [5, 5, 7, 2] [1, 1, 1, 1] [5, 5, 7, 2] [1, 1, 1, 1] [1, 1, 1, 1] [1, 1, 1, 1]
              () () () () (PyNum 0 :: unit turn pyval))"
proof -
  have t: "response_template (toy_dataset 4 None ''A:4'' ''A:5 #'') = None"
    "response_template (toy_qwen_dataset 4 None ''Q?A:4 #'' ''Q?A:5 #'') = None"
    by (simp_all add: toy_dataset_def toy_qwen_dataset_def)
  from no_template_loss_is_attention [of "toy_dataset 4 None ''A:4'' ''A:5 #''" 0 _
      "toy_qwen_dataset 4 None ''Q?A:4 #'' ''Q?A:5 #''" 0]
    toy_getitem_truncated toy_qwen_getitem_truncated t
  show ?thesis by blast
qed

theorem template_loss_marks_answers_witness:
  "response_template (toy_dataset 100 (Some ''A:'') ''A:4'' ''A:5 #'') = Some ''A:''
   \<and> getitem (toy_dataset 100 (Some ''A:'') ''A:4'' ''A:5 #'') 0
     = Inr (Item7 [5, 5, 7, 8, 5, 5, 2] [1, 1, 1, 1, 1, 1, 1]
              [5, 5, 7, 8, 5, 5, 2] [1, 1, 1, 1, 1, 1, 1]
              [0, 0, 0, 0, 1, 1, 1] [0, 0, 0, 0, 1, 1, 1] (PyNum 0)
            :: (unit pyval, unit, unit) item)
   \<and> response_template (toy_qwen_dataset 100 (Some ''A:'') ''Q?A:4 #'' ''Q?A:5 #'') = Some ''A:''
   \<and> qwen_getitem (toy_qwen_dataset 100 (Some ''A:'') ''Q?A:4 #'' ''Q?A:5 #'') 0
     = Inr (Item11 [5, 5, 7, 8, 5, 5, 2] [1, 1, 1, 1, 1, 1, 1]
              [5, 5, 7, 8, 5, 5, 2] [1, 1, 1, 1, 1, 1, 1]
              [0, 0, 0, 0, 1, 1, 1] [0, 0, 0, 0, 1, 1, 1] () () () () (PyNum 0))
   \<and> marks_answer_spans [5, 5, 7, 8, 5, 5, 2] [7, 8] 2 [0, 0, 0, 0, 1, 1, 1]"
proof -
  have t: "response_template (toy_dataset 100 (Some ''A:'') ''A:4'' ''A:5 #'') = Some ''A:''"
    "response_template (toy_qwen_dataset 100 (Some ''A:'') ''Q?A:4 #'' ''Q?A:5 #'') = Some ''A:''"
    "tokenizer (toy_dataset 100 (Some ''A:'') ''A:4'' ''A:5 #'') = toy_tokenizer"
    by (simp_all add: toy_dataset_def toy_qwen_dataset_def)
  have e: "input_ids (encode toy_tokenizer ''A:'' None) = [7, 8]" "eos_token_id toy_tokenizer = 2"
    by (simp_all add: toy_tokenizer_def toy_encode_def toy_token_def)
  from template_loss_marks_answers [of "toy_dataset 100 (Some ''A:'') ''A:4'' ''A:5 #''" "''A:''" 0
      "Item7 [5, 5, 7, 8, 5, 5, 2] [1, 1, 1, 1, 1, 1, 1]
              [5, 5, 7, 8, 5, 5, 2] [1, 1, 1, 1, 1, 1, 1]
              [0, 0, 0, 0, 1, 1, 1] [0, 0, 0, 0, 1, 1, 1] (PyNum 0)
            :: (unit pyval, unit, unit) item"
      "toy_qwen_dataset 100 (Some ''A:'') ''Q?A:4 #'' ''Q?A:5 #''" "''A:''" 0
      "Item11 [5, 5, 7, 8, 5, 5, 2] [1, 1, 1, 1, 1, 1, 1]
              [5, 5, 7, 8, 5, 5, 2] [1, 1, 1, 1, 1, 1, 1]
              [0, 0, 0, 0, 1, 1, 1] [0, 0, 0, 0, 1, 1, 1] () () () () (PyNum 0)"]
    toy_getitem_template toy_qwen_getitem_template t
  have "loss_marks_answers toy_tokenizer ''A:''
          (Item7 [5, 5, 7, 8, 5, 5, 2] [1, 1, 1, 1, 1, 1, 1]
              [5, 5, 7, 8, 5, 5, 2] [1, 1, 1, 1, 1, 1, 1]
              [0, 0, 0, 0, 1, 1, 1] [0, 0, 0, 0, 1, 1, 1] (PyNum 0)
            :: (unit pyval, unit, unit) item)"
    by simp
  then have "marks_answer_spans [5, 5, 7, 8, 5, 5, 2] [7, 8] 2 [0, 0, 0, 0, 1, 1, 1]"
    by (simp add: loss_marks_answers_def e)
  with toy_getitem_template toy_qwen_getitem_template t show ?thesis by blast
qed

text \<open>
  C3. The fallback to the last valid index is missing in three of the four loops. When the
  template matches at the very end of the sequence (its last token is the end-of-sequence
  id), no end-of-sequence id follows the match: the chosen loop of \<open>RewardDataset\<close> and
  that of \<open>QwenRewardDataset\<close> read \<open>end_id\<close> before any assignment, the reject loop of
  \<open>RewardDataset\<close> adds 1 to \<open>None\<close>; only the reject loop of \<open>QwenRewardDataset\<close>
  falls back and returns.
\<close>

theorem template_at_tail_raises:
  "getitem (toy_dataset 100 (Some ''A#'') ''A#'' ''B'') 0
     = (Inl UnboundLocalError :: error + (unit pyval, unit, unit) item)
   \<and> getitem (toy_dataset 100 (Some ''A#'') ''B'' ''A#'') 0
     = (Inl TypeError :: error + (unit pyval, unit, unit) item)
   \<and> qwen_getitem (toy_qwen_dataset 100 (Some ''A#'') ''QA#'' ''B#'') 0
     = Inl UnboundLocalError
   \<and> qwen_getitem (toy_qwen_dataset 100 (Some ''A#'') ''B#'' ''QA#'') 0
     = Inr (Item11 [5, 2] [1, 1] [5, 7, 2] [1, 1, 1] [0, 0] [0, 0, 0] () () () () (PyNum 0))"
proof -
  have a: "getitem (toy_dataset 100 (Some ''A#'') ''A#'' ''B'') 0
     = (Inl UnboundLocalError :: error + (unit pyval, unit, unit) item)"
    by code_simp
  have b: "getitem (toy_dataset 100 (Some ''A#'') ''B'' ''A#'') 0
     = (Inl TypeError :: error + (unit pyval, unit, unit) item)"
    by code_simp
  have c: "qwen_getitem (toy_qwen_dataset 100 (Some ''A#'') ''QA#'' ''B#'') 0
     = Inl UnboundLocalError"
    by (simp add: toy_defs eval_defs)
  have d: "qwen_getitem (toy_qwen_dataset 100 (Some ''A#'') ''B#'' ''QA#'') 0
     = Inr (Item11 [5, 2] [1, 1] [5, 7, 2] [1, 1, 1] [0, 0] [0, 0, 0] () () () () (PyNum 0))"
    by (simp add: toy_defs eval_defs)
  from a b c d show ?thesis by simp
qed

lemma getitem_is_Item7: "getitem self idx = Inr it \<Longrightarrow> is_Item7 it"
  by (auto simp: getitem_def Let_def ebind_Inr_iff)

lemma qwen_getitem_is_Item11: "qwen_getitem self idx = Inr it \<Longrightarrow> is_Item11 it"
  by (auto simp: qwen_getitem_def Let_def ebind_Inr_iff)

lemma packing_collate_fn_Inr:
  assumes "packing_collate_fn self item_list = Inr batch"
  shows "item_list \<noteq> [] \<and> (\<forall>it\<in>set item_list. is_Item5 it)"
proof -
  have "\<forall>it\<in>set item_list. is_Item5 it"
  proof (rule ccontr)
    assume "\<not> (\<forall>it\<in>set item_list. is_Item5 it)"
    then have "\<exists>it\<in>set item_list. \<not> is_Item5 it" by simp
    from packing_loop_not_Item5 [OF this] assms show False
      by (simp add: packing_collate_fn_def ebind_def)
  qed
  moreover have "item_list \<noteq> []"
  proof
    assume "item_list = []"
    with assms show False
      by (simp add: packing_collate_fn_def ebind_def torch_cat_def)
  qed
  ultimately show ?thesis by simp
qed

text \<open>
  C10. \<open>RewardDataset.__getitem__\<close> returns 7-tuples and
  \<open>QwenRewardDataset.__getitem__\<close> 11-tuples. On a list of such tuples
  \<open>packing_collate_fn\<close> returns no batch: on a non-empty list the destructuring into five
  names raises ValueError (on the empty list \<open>torch.cat\<close> raises). Whenever it does return
  a batch, the list was non-empty and made of 5-tuples only.
\<close>

theorem packing_needs_5_tuples:
  "(getitem ds idx = Inr it \<longrightarrow> is_Item7 it)
   \<and> (qwen_getitem qds qidx = Inr qit \<longrightarrow> is_Item11 qit)
   \<and> ((\<forall>it\<in>set item_list. is_Item7 it \<or> is_Item11 it) \<longrightarrow>
        (\<exists>e. packing_collate_fn self item_list = Inl e)
        \<and> (item_list \<noteq> [] \<longrightarrow> packing_collate_fn self item_list = Inl ValueError))
   \<and> (packing_collate_fn self item_list = Inr batch \<longrightarrow>
        item_list \<noteq> [] \<and> (\<forall>it\<in>set item_list. is_Item5 it))"
proof (intro conjI impI)
  assume "getitem ds idx = Inr it" then show "is_Item7 it" by (rule getitem_is_Item7)
next
  assume "qwen_getitem qds qidx = Inr qit" then show "is_Item11 qit"
    by (rule qwen_getitem_is_Item11)
next
  assume a: "\<forall>it\<in>set item_list. is_Item7 it \<or> is_Item11 it"
  show "\<exists>e. packing_collate_fn self item_list = Inl e"
  proof (cases "packing_collate_fn self item_list")
    case (Inl e) then show ?thesis by blast
  next
    case (Inr batch)
    from packing_collate_fn_Inr [OF this] obtain it where "it \<in> set item_list" "is_Item5 it"
      by (cases item_list) auto
    with a show ?thesis by (cases it) auto
  qed
next
  assume a: "\<forall>it\<in>set item_list. is_Item7 it \<or> is_Item11 it" and ne: "item_list \<noteq> []"
  then obtain it where "it \<in> set item_list" by (cases item_list) auto
  with a have "it \<in> set item_list \<and> \<not> is_Item5 it" by (cases it) auto
  then have "\<exists>it\<in>set item_list. \<not> is_Item5 it" by blast
  from packing_loop_not_Item5 [OF this]
  show "packing_collate_fn self item_list = Inl ValueError"
    by (simp add: packing_collate_fn_def ebind_def)
next
  assume "packing_collate_fn self item_list = Inr batch"
  from packing_collate_fn_Inr [OF this] show "item_list \<noteq> []" by simp
next
  assume "packing_collate_fn self item_list = Inr batch"
  from packing_collate_fn_Inr [OF this] show "\<forall>it\<in>set item_list. is_Item5 it" by simp
qed

theorem packing_needs_5_tuples_witness:
  "getitem (toy_dataset 4 None ''A:4'' ''A:5 #'') 0
     = Inr (Item7 [5, 5, 7, 2] [1, 1, 1, 1] [5, 5, 7, 2] [1, 1, 1, 1] [1, 1, 1, 1] [1, 1, 1, 1]
              (PyNum 0) :: (unit pyval, unit, unit) item)
   \<and> qwen_getitem (toy_qwen_dataset 4 None ''Q?A:4 #'' ''Q?A:5 #'') 0
     = Inr (Item11 [5, 5, 7, 2] [1, 1, 1, 1] [5, 5, 7, 2] [1, 1, 1, 1] [1, 1, 1, 1] [1, 1, 1, 1]
              () () () () (PyNum 0))
   \<and> packing_collate_fn (toy_packer 8)
        [Item7 [5, 5, 7, 2] [1, 1, 1, 1] [5, 5, 7, 2] [1, 1, 1, 1] [1, 1, 1, 1] [1, 1, 1, 1]
              (PyNum 0) :: (unit pyval, unit, unit) item]
     = Inl ValueError
   \<and> packing_collate_fn (toy_packer 8)
        [Item11 [5, 5, 7, 2] [1, 1, 1, 1] [5, 5, 7, 2] [1, 1, 1, 1] [1, 1, 1, 1] [1, 1, 1, 1]
              () () () () (PyNum 0 :: unit turn pyval)]
     = Inl ValueError
   \<and> packing_collate_fn (toy_packer 8) toy_items =
        Inr ([11, 12, 13, 14, 15, 16, 17, 18, 21, 22, 23, 24, 25, 26, 0, 0],
             [1, 1, 1, 2, 2, 2, 2, 2, 3, 3, 3, 3, 4, 4, 0, 0],
             [3, 5, 4, 2], [(), ()])
   \<and> list_all is_Item5 toy_items"
proof -
  let ?i7 = "Item7 [5, 5, 7, 2] [1, 1, 1, 1] [5, 5, 7, 2] [1, 1, 1, 1] [1, 1, 1, 1] [1, 1, 1, 1]
              (PyNum 0) :: (unit pyval, unit, unit) item"
  let ?i11 = "Item11 [5, 5, 7, 2] [1, 1, 1, 1] [5, 5, 7, 2] [1, 1, 1, 1] [1, 1, 1, 1]
              [1, 1, 1, 1] () () () () (PyNum 0 :: unit turn pyval)"
  let ?b = "([11, 12, 13, 14, 15, 16, 17, 18, 21, 22, 23, 24, 25, 26, 0, 0],
             [1, 1, 1, 2, 2, 2, 2, 2, 3, 3, 3, 3, 4, 4, 0, 0],
             [3, 5, 4, 2], [(), ()]) :: int list \<times> int list \<times> int list \<times> unit list"
  have e: "packing_collate_fn (toy_packer 8) toy_items = Inr ?b"
    by code_simp
  have h7: "\<forall>it\<in>set [?i7]. is_Item7 it \<or> is_Item11 it" by simp
  have h11: "\<forall>it\<in>set [?i11]. is_Item7 it \<or> is_Item11 it" by simp
  from packing_needs_5_tuples [of "toy_dataset 4 None ''A:4'' ''A:5 #''" 0 ?i7
      "toy_qwen_dataset 4 None ''Q?A:4 #'' ''Q?A:5 #''" 0 ?i11 "[?i7]" "toy_packer 8"] h7
  have a: "packing_collate_fn (toy_packer 8) [?i7] = Inl ValueError" by blast
  from packing_needs_5_tuples [of "toy_dataset 4 None ''A:4'' ''A:5 #''" 0 ?i7
      "toy_qwen_dataset 4 None ''Q?A:4 #'' ''Q?A:5 #''" 0 ?i11 "[?i11]" "toy_packer 8"] h11
  have b: "packing_collate_fn (toy_packer 8) [?i11] = Inl ValueError" by blast
  from packing_needs_5_tuples [of "toy_dataset 4 None ''A:4'' ''A:5 #''" 0 ?i7
      "toy_qwen_dataset 4 None ''Q?A:4 #'' ''Q?A:5 #''" 0 ?i11 toy_items "toy_packer 8" ?b] e
  have c: "list_all is_Item5 toy_items" by (simp add: list_all_iff)
  from toy_getitem_truncated toy_qwen_getitem_truncated a b c e show ?thesis by blast
qed

section \<open>The claim about the padded batch assembler\<close>

text \<open>
  C4. \<open>RewardDataset.collate_fn\<close> pads the reject loss masks, then returns the loop
  variable \<open>rejected_loss_mask\<close> in their place: for two items the sixth component is the
  unpadded loss mask of the last item, one row of length 1, where the padded field has two
  rows of length 3. The other five fields are padded batches.
\<close>

theorem collate_fn_returns_loop_variable:
  "collate_fn (toy_packer 1) toy_loss_items =
     Inr ([[5, 7, 2], [0, 7, 2]], [[1, 1, 1], [0, 1, 1]],
          [[5, 8, 2], [0, 0, 2]], [[1, 1, 1], [0, 0, 1]],
          [[0, 1, 1], [0, 1, 1]], [1], [(), ()])
   \<and> zero_pad_sequences (map reject_loss_mask toy_loss_items) Left 0 = [[0, 1, 1], [0, 0, 1]]
   \<and> length toy_loss_items = 2"
proof -
  have a: "collate_fn (toy_packer 1) toy_loss_items =
     Inr ([[5, 7, 2], [0, 7, 2]], [[1, 1, 1], [0, 1, 1]],
          [[5, 8, 2], [0, 0, 2]], [[1, 1, 1], [0, 0, 1]],
          [[0, 1, 1], [0, 1, 1]], [1], [(), ()])"
    by code_simp
  have b: "zero_pad_sequences (map reject_loss_mask toy_loss_items) Left 0
           = [[0, 1, 1], [0, 0, 1]]"
    by code_simp
  have c: "length toy_loss_items = 2" by (simp add: toy_loss_items_def)
  from a b c show ?thesis by simp
qed


section \<open>The claim about the multimodal validation\<close>

lemma emap_all_Inr: "\<forall>x\<in>set xs. f x = Inr (g x) \<Longrightarrow> emap f xs = Inr (map g xs)"
  by (induction xs) simp_all

lemma emap_first_error:
  "\<forall>x\<in>set xs. f x = Inl e \<or> (\<exists>y. f x = Inr y) \<Longrightarrow> \<exists>x\<in>set xs. f x = Inl e
     \<Longrightarrow> emap f xs = Inl e"
proof (induction xs)
  case Nil
  then show ?case by simp
next
  case (Cons x xs)
  show ?case
  proof (cases "f x")
    case (Inl e')
    with Cons.prems(1) have "e' = e" by auto
    with Inl show ?thesis by simp
  next
    case (Inr y)
    with Cons.prems have "\<exists>x\<in>set xs. f x = Inl e" by auto
    moreover from Cons.prems(1) have "\<forall>x\<in>set xs. f x = Inl e \<or> (\<exists>y. f x = Inr y)" by simp
    ultimately have "emap f xs = Inl e" by (rule Cons.IH [rotated])
    with Inr show ?thesis by simp
  qed
qed

lemma clean_entry_null_image: "null_image m \<Longrightarrow> clean_entry m = Inl AssertionError"
  by (auto simp: null_image_def clean_entry_def ebind_def)

lemma clean_entry_keyed:
  "keyed m \<Longrightarrow> \<not> null_image m \<Longrightarrow> clean_entry m = Inr (strip_nulls m)"
  by (auto simp: null_image_def keyed_def clean_entry_def ebind_def strip_nulls_def Let_def
           split: option.splits)

lemma clean_turn_null:
  assumes "\<forall>m\<in>set (content d). keyed m" "\<exists>m\<in>set (content d). null_image m"
  shows "clean_turn d = Inl AssertionError"
proof -
  have "\<forall>m\<in>set (content d). clean_entry m = Inl AssertionError \<or> (\<exists>y. clean_entry m = Inr y)"
    using assms(1) clean_entry_null_image clean_entry_keyed by blast
  moreover have "\<exists>m\<in>set (content d). clean_entry m = Inl AssertionError"
    using assms(2) clean_entry_null_image by blast
  ultimately have "emap clean_entry (content d) = Inl AssertionError"
    by (rule emap_first_error)
  then show ?thesis by (simp add: clean_turn_def ebind_def)
qed

lemma clean_turn_ok:
  assumes "\<forall>m\<in>set (content d). keyed m \<and> \<not> null_image m"
  shows "clean_turn d = Inr (d\<lparr>content := map strip_nulls (content d)\<rparr>)"
proof -
  have "\<forall>m\<in>set (content d). clean_entry m = Inr (strip_nulls m)"
    using assms clean_entry_keyed by blast
  then have "emap clean_entry (content d) = Inr (map strip_nulls (content d))"
    by (rule emap_all_Inr)
  then show ?thesis by (simp add: clean_turn_def ebind_def)
qed

lemma clean_conversation_null:
  assumes k: "\<forall>m\<in>set (entries turns). keyed m" and n: "\<exists>m\<in>set (entries turns). null_image m"
  shows "clean_conversation (PyList turns) = Inl AssertionError"
proof -
  have "clean_turn d = Inl AssertionError \<or> (\<exists>y. clean_turn d = Inr y)" if "d \<in> set turns" for d
  proof (cases "\<exists>m\<in>set (content d). null_image m")
    case True
    moreover from k that have "\<forall>m\<in>set (content d). keyed m" by (auto simp: entries_def)
    ultimately show ?thesis using clean_turn_null by blast
  next
    case False
    with k that have "\<forall>m\<in>set (content d). keyed m \<and> \<not> null_image m"
      by (auto simp: entries_def)
    from clean_turn_ok [OF this] show ?thesis by blast
  qed
  then have a: "\<forall>d\<in>set turns. clean_turn d = Inl AssertionError \<or> (\<exists>y. clean_turn d = Inr y)"
    by blast
  from n obtain d m where d: "d \<in> set turns" "m \<in> set (content d)" "null_image m"
    by (auto simp: entries_def)
  with k have "\<forall>m\<in>set (content d). keyed m" by (auto simp: entries_def)
  with d have "clean_turn d = Inl AssertionError" using clean_turn_null by blast
  with d have b: "\<exists>d\<in>set turns. clean_turn d = Inl AssertionError" by blast
  from emap_first_error [OF a b] show ?thesis by (simp add: ebind_def)
qed

lemma clean_conversation_ok:
  assumes "\<forall>m\<in>set (entries turns). keyed m \<and> \<not> null_image m"
  shows "clean_conversation (PyList turns) = Inr (PyList (strip_turns turns))"
proof -
  have "\<forall>d\<in>set turns. clean_turn d = Inr (d\<lparr>content := map strip_nulls (content d)\<rparr>)"
  proof
    fix d assume "d \<in> set turns"
    with assms have "\<forall>m\<in>set (content d). keyed m \<and> \<not> null_image m"
      by (auto simp: entries_def)
    then show "clean_turn d = Inr (d\<lparr>content := map strip_nulls (content d)\<rparr>)"
      by (rule clean_turn_ok)
  qed
  from emap_all_Inr [OF this] show ?thesis by (simp add: ebind_def strip_turns_def)
qed

lemma qwen_getitem_null_image:
  assumes p: "py_index (prompts self) idx = Inr pr"
    and c: "py_index (chosens self) idx = Inr (PyList cts)"
    and r: "py_index (rejects self) idx = Inr (PyList rts)"
    and x: "py_index (extras self) idx = Inr ex"
    and k: "\<forall>m\<in>set (entries (cts @ rts)). keyed m"
    and n: "\<exists>m\<in>set (entries (cts @ rts)). null_image m"
  shows "qwen_getitem self idx = Inl AssertionError"
proof (cases "\<exists>m\<in>set (entries cts). null_image m")
  case True
  from k have "\<forall>m\<in>set (entries cts). keyed m" by (simp add: entries_def)
  from clean_conversation_null [OF this True] p c r x show ?thesis
    by (simp add: qwen_getitem_def ebind_def)
next
  case False
  with k have "\<forall>m\<in>set (entries cts). keyed m \<and> \<not> null_image m" by (auto simp: entries_def)
  note ok = clean_conversation_ok [OF this]
  from False n have "\<exists>m\<in>set (entries rts). null_image m" by (auto simp: entries_def)
  moreover from k have "\<forall>m\<in>set (entries rts). keyed m" by (simp add: entries_def)
  ultimately have "clean_conversation (PyList rts) = Inl AssertionError"
    using clean_conversation_null by blast
  with ok p c r x show ?thesis by (simp add: qwen_getitem_def ebind_def)
qed

lemma qwen_getitem_cleans:
  "qwen_getitem self idx =
     ebind (py_index (prompts self) idx) (\<lambda>prompt.
     ebind (py_index (chosens self) idx) (\<lambda>chosen0.
     ebind (py_index (rejects self) idx) (\<lambda>reject0.
     ebind (py_index (extras self) idx) (\<lambda>extra.
     ebind (clean_conversation chosen0) (\<lambda>chosen.
     ebind (clean_conversation reject0) (\<lambda>reject.
       qwen_encode self chosen reject extra))))))"
  by (simp add: qwen_getitem_def qwen_encode_def Let_def)

lemma qwen_getitem_good:
  assumes p: "py_index (prompts self) idx = Inr pr"
    and c: "py_index (chosens self) idx = Inr (PyList cts)"
    and r: "py_index (rejects self) idx = Inr (PyList rts)"
    and x: "py_index (extras self) idx = Inr ex"
    and k: "\<forall>m\<in>set (entries (cts @ rts)). keyed m \<and> \<not> null_image m"
  shows "qwen_getitem self idx
           = qwen_encode self (PyList (strip_turns cts)) (PyList (strip_turns rts)) ex"
proof -
  from k have kc: "\<forall>m\<in>set (entries cts). keyed m \<and> \<not> null_image m"
    and kr: "\<forall>m\<in>set (entries rts). keyed m \<and> \<not> null_image m"
    by (auto simp: entries_def)
  from clean_conversation_ok [OF kc] clean_conversation_ok [OF kr] p c r x show ?thesis
    by (simp add: qwen_getitem_cleans ebind_def)
qed

text \<open>
  C9. An entry typed as image with a null image field makes the loop body raise
  AssertionError, and with it \<open>QwenRewardDataset.__getitem__\<close>, on the chosen or on the
  rejected side (every entry having the keys that the loop reads, so that no KeyError comes
  first). An entry without a null image is cleaned without raising: a null text field of
  an image entry and a null image field of a text entry are removed. When no entry of
  either side has a null image, \<open>__getitem__\<close> raises nothing in the cleaning loops and
  goes on with the cleaned conversations: what it returns is what rendering, processing
  and masking make of the conversations with those null fields removed.
\<close>

theorem null_image_fails_fast:
  "(null_image m \<longrightarrow> clean_entry m = Inl AssertionError)
   \<and> (keyed m \<and> \<not> null_image m \<longrightarrow> clean_entry m = Inr (strip_nulls m))
   \<and> (m ''type'' = Some (Str ''image'') \<and> m ''text'' = Some Null
        \<longrightarrow> strip_nulls m ''text'' = None)
   \<and> (m ''type'' = Some (Str ''text'') \<and> m ''image'' = Some Null
        \<longrightarrow> strip_nulls m ''image'' = None)
   \<and> ((\<forall>m\<in>set (entries turns). keyed m \<and> \<not> null_image m)
        \<longrightarrow> clean_conversation (PyList turns) = Inr (PyList (strip_turns turns)))
   \<and> (py_index (prompts self) idx = Inr pr
       \<and> py_index (chosens self) idx = Inr (PyList cts)
       \<and> py_index (rejects self) idx = Inr (PyList rts)
       \<and> py_index (extras self) idx = Inr ex
       \<and> (\<forall>m\<in>set (entries (cts @ rts)). keyed m)
       \<and> (\<exists>m\<in>set (entries (cts @ rts)). null_image m)
        \<longrightarrow> qwen_getitem self idx = Inl AssertionError)
   \<and> (py_index (prompts self) idx = Inr pr
       \<and> py_index (chosens self) idx = Inr (PyList cts)
       \<and> py_index (rejects self) idx = Inr (PyList rts)
       \<and> py_index (extras self) idx = Inr ex
       \<and> (\<forall>m\<in>set (entries (cts @ rts)). keyed m \<and> \<not> null_image m)
        \<longrightarrow> qwen_getitem self idx
              = qwen_encode self (PyList (strip_turns cts)) (PyList (strip_turns rts)) ex)"
proof (intro conjI impI)
  assume "null_image m" then show "clean_entry m = Inl AssertionError"
    by (rule clean_entry_null_image)
next
  assume "keyed m \<and> \<not> null_image m" then show "clean_entry m = Inr (strip_nulls m)"
    using clean_entry_keyed by blast
next
  assume "m ''type'' = Some (Str ''image'') \<and> m ''text'' = Some Null"
  then show "strip_nulls m ''text'' = None" by (simp add: strip_nulls_def)
next
  assume "m ''type'' = Some (Str ''text'') \<and> m ''image'' = Some Null"
  then show "strip_nulls m ''image'' = None" by (simp add: strip_nulls_def)
next
  assume "\<forall>m\<in>set (entries turns). keyed m \<and> \<not> null_image m"
  then show "clean_conversation (PyList turns) = Inr (PyList (strip_turns turns))"
    by (rule clean_conversation_ok)
next
  assume "py_index (prompts self) idx = Inr pr
       \<and> py_index (chosens self) idx = Inr (PyList cts)
       \<and> py_index (rejects self) idx = Inr (PyList rts)
       \<and> py_index (extras self) idx = Inr ex
       \<and> (\<forall>m\<in>set (entries (cts @ rts)). keyed m)
       \<and> (\<exists>m\<in>set (entries (cts @ rts)). null_image m)"
  then show "qwen_getitem self idx = Inl AssertionError"
    using qwen_getitem_null_image by blast
next
  assume "py_index (prompts self) idx = Inr pr
       \<and> py_index (chosens self) idx = Inr (PyList cts)
       \<and> py_index (rejects self) idx = Inr (PyList rts)
       \<and> py_index (extras self) idx = Inr ex
       \<and> (\<forall>m\<in>set (entries (cts @ rts)). keyed m \<and> \<not> null_image m)"
  then show "qwen_getitem self idx
      = qwen_encode self (PyList (strip_turns cts)) (PyList (strip_turns rts)) ex"
    using qwen_getitem_good by blast
qed

lemmas toy_entry_defs = toy_bad_entry_def toy_image_entry_def toy_text_entry_def
  toy_good_turns_def toy_bad_turns_def toy_bad_dataset_def toy_good_dataset_def

lemma toy_good_item:
  "qwen_encode toy_good_dataset (PyList (strip_turns toy_good_turns))
       (PyList (strip_turns toy_good_turns)) (PyNum 0)
     = Inr (Item11 [5, 2] [1, 1] [5, 2] [1, 1] [1, 1] [1, 1] () () () () (PyNum 0))"
  by (simp add: qwen_encode_def toy_good_dataset_def toy_defs toy_entry_defs eval_defs
        strip_turns_def strip_nulls_def)

theorem null_image_fails_fast_witness:
  "null_image toy_bad_entry \<and> clean_entry toy_bad_entry = Inl AssertionError
   \<and> keyed toy_image_entry \<and> \<not> null_image toy_image_entry
   \<and> clean_entry toy_image_entry = Inr (strip_nulls toy_image_entry)
   \<and> strip_nulls toy_image_entry ''text'' = None
   \<and> keyed toy_text_entry \<and> \<not> null_image toy_text_entry
   \<and> clean_entry toy_text_entry = Inr (strip_nulls toy_text_entry)
   \<and> strip_nulls toy_text_entry ''image'' = None
   \<and> clean_conversation (PyList toy_good_turns) = Inr (PyList (strip_turns toy_good_turns))
   \<and> qwen_getitem toy_bad_dataset 0 = Inl AssertionError
   \<and> qwen_getitem toy_good_dataset 0
       = qwen_encode toy_good_dataset (PyList (strip_turns toy_good_turns))
           (PyList (strip_turns toy_good_turns)) (PyNum 0)
   \<and> qwen_getitem toy_good_dataset 0
       = Inr (Item11 [5, 2] [1, 1] [5, 2] [1, 1] [1, 1] [1, 1] () () () () (PyNum 0))"
proof -
  have b: "null_image toy_bad_entry" by (simp add: null_image_def toy_bad_entry_def)
  have i: "keyed toy_image_entry" "\<not> null_image toy_image_entry"
    "toy_image_entry ''type'' = Some (Str ''image'') \<and> toy_image_entry ''text'' = Some Null"
    by (simp_all add: keyed_def null_image_def toy_image_entry_def)
  have t: "keyed toy_text_entry" "\<not> null_image toy_text_entry"
    "toy_text_entry ''type'' = Some (Str ''text'') \<and> toy_text_entry ''image'' = Some Null"
    by (simp_all add: keyed_def null_image_def toy_text_entry_def)
  have g: "\<forall>m\<in>set (entries toy_good_turns). keyed m \<and> \<not> null_image m"
    using i t by (simp add: entries_def toy_good_turns_def)
  have q: "py_index (prompts toy_bad_dataset) 0 = Inr (PyStr [])
       \<and> py_index (chosens toy_bad_dataset) 0 = Inr (PyList toy_good_turns)
       \<and> py_index (rejects toy_bad_dataset) 0 = Inr (PyList toy_bad_turns)
       \<and> py_index (extras toy_bad_dataset) 0 = Inr (PyNum 0)
       \<and> (\<forall>m\<in>set (entries (toy_good_turns @ toy_bad_turns)). keyed m)
       \<and> (\<exists>m\<in>set (entries (toy_good_turns @ toy_bad_turns)). null_image m)"
    using i t b
    by (simp add: toy_bad_dataset_def toy_qwen_dataset_def py_index_def entries_def
          toy_good_turns_def toy_bad_turns_def)
       (simp add: keyed_def toy_bad_entry_def)
  from null_image_fails_fast [of toy_bad_entry] b
  have 1: "clean_entry toy_bad_entry = Inl AssertionError" by blast
  from null_image_fails_fast [of toy_image_entry] i
  have 2: "clean_entry toy_image_entry = Inr (strip_nulls toy_image_entry)"
    "strip_nulls toy_image_entry ''text'' = None" by blast+
  from null_image_fails_fast [of toy_text_entry] t
  have 3: "clean_entry toy_text_entry = Inr (strip_nulls toy_text_entry)"
    "strip_nulls toy_text_entry ''image'' = None" by blast+
  from null_image_fails_fast [of _ toy_good_turns] g
  have 4: "clean_conversation (PyList toy_good_turns) = Inr (PyList (strip_turns toy_good_turns))"
    by blast
  from null_image_fails_fast [of _ _ toy_bad_dataset 0 "PyStr []" toy_good_turns toy_bad_turns
      "PyNum 0"] q
  have 5: "qwen_getitem toy_bad_dataset 0 = Inl AssertionError" by blast
  have gq: "py_index (prompts toy_good_dataset) 0 = Inr (PyStr [])
       \<and> py_index (chosens toy_good_dataset) 0 = Inr (PyList toy_good_turns)
       \<and> py_index (rejects toy_good_dataset) 0 = Inr (PyList toy_good_turns)
       \<and> py_index (extras toy_good_dataset) 0 = Inr (PyNum 0)
       \<and> (\<forall>m\<in>set (entries (toy_good_turns @ toy_good_turns)). keyed m \<and> \<not> null_image m)"
    using i t
    by (simp add: toy_good_dataset_def toy_qwen_dataset_def py_index_def entries_def
          toy_good_turns_def)
  from null_image_fails_fast [of _ _ toy_good_dataset 0 "PyStr []" toy_good_turns toy_good_turns
      "PyNum 0"] gq
  have 6: "qwen_getitem toy_good_dataset 0
       = qwen_encode toy_good_dataset (PyList (strip_turns toy_good_turns))
           (PyList (strip_turns toy_good_turns)) (PyNum 0)"
    by blast
  with toy_good_item
  have 7: "qwen_getitem toy_good_dataset 0
       = Inr (Item11 [5, 2] [1, 1] [5, 2] [1, 1] [1, 1] [1, 1] () () () () (PyNum 0))"
    by simp
  from b i t 1 2 3 4 5 6 7 show ?thesis by blast
qed

section \<open>The claim about the example normalizer\<close>

lemma preprocess_data_margin:
  "preprocess_data fmt data it pk ck rk act dpo = Inr (p, c, r, m) \<Longrightarrow> m = margin_or_zero data"
  by (auto simp: preprocess_data_def Let_def ebind_Inr_iff exist_and_not_none_def
        margin_or_zero_def split: if_splits option.splits)

lemma process_data_dpo:
  assumes d: "is_dpo self"
    and p: "preprocess_data fmt data (input_template self) (prompt_key self) (chosen_key self)
              (rejected_key self) (apply_chat_template self) (is_dpo self) = Inr (PyStr s, c, r, m)"
  shows "process_data fmt self data =
     Inr \<lparr>prompt = (if prompt_ids_len (tokenizer self) (max_length self) s
                            \<ge> max_length self - 2 then PyNone else PyStr s),
          chosen = c, reject = r,
          extra = PyNum (prompt_ids_len (tokenizer self) (max_length self) s)\<rparr>"
proof -
  from p d have "preprocess_data fmt data (input_template self) (prompt_key self)
      (chosen_key self) (rejected_key self) (apply_chat_template self) True = Inr (PyStr s, c, r, m)"
    by simp
  with d show ?thesis
    by (simp add: process_data_def ebind_def Let_def prompt_ids_len_def)
qed

lemma process_data_dpo_Inr:
  assumes d: "is_dpo self" and e: "process_data fmt self data = Inr ex"
  shows "\<exists>s c r m.
     preprocess_data fmt data (input_template self) (prompt_key self) (chosen_key self)
       (rejected_key self) (apply_chat_template self) (is_dpo self) = Inr (PyStr s, c, r, m)"
proof -
  from e obtain p c r m where
    pp: "preprocess_data fmt data (input_template self) (prompt_key self) (chosen_key self)
       (rejected_key self) (apply_chat_template self) (is_dpo self) = Inr (p, c, r, m)"
    and rest: "(if is_dpo self then
            ebind (py_tokenize (tokenizer self) p (Some (max_length self)))
              (\<lambda>prompt_token.
                 let prompt_ids_len = sum_list (attention_mask prompt_token);
                     prompt1 = (if prompt_ids_len \<ge> max_length self - 2 then PyNone
                                else p)
                 in Inr \<lparr>prompt = prompt1, chosen = c, reject = r,
                         extra = PyNum prompt_ids_len\<rparr>)
          else Inr \<lparr>prompt = p, chosen = c, reject = r, extra = m\<rparr>) = Inr ex"
    by (auto simp: process_data_def ebind_Inr_iff)
  from rest d obtain tk where "py_tokenize (tokenizer self) p (Some (max_length self)) = Inr tk"
    by (auto simp: ebind_Inr_iff)
  then obtain s where "p = PyStr s" by (cases p) auto
  with pp show ?thesis by blast
qed

lemma process_data_not_dpo:
  assumes d: "\<not> is_dpo self" and e: "process_data fmt self data = Inr ex"
  shows "extra ex = margin_or_zero data"
proof -
  from e d obtain p c r m where
    pp: "preprocess_data fmt data (input_template self) (prompt_key self) (chosen_key self)
       (rejected_key self) (apply_chat_template self) (is_dpo self) = Inr (p, c, r, m)"
    and ex: "ex = \<lparr>prompt = p, chosen = c, reject = r, extra = m\<rparr>"
    by (auto simp: process_data_def ebind_Inr_iff)
  from preprocess_data_margin [OF pp] ex show ?thesis by simp
qed

lemma load_columns_Inr:
  assumes "emap (process_data fmt self) dataset = Inr exs"
  shows "\<exists>ds. load_columns fmt self dataset = Inr ds
     \<and> prompts ds = filter (\<lambda>p. p \<noteq> PyNone) (map prompt exs)
     \<and> chosens ds = map chosen (filter (\<lambda>x. prompt x \<noteq> PyNone) exs)
     \<and> rejects ds = map reject (filter (\<lambda>x. prompt x \<noteq> PyNone) exs)
     \<and> extras ds = map extra (filter (\<lambda>x. prompt x \<noteq> PyNone) exs)"
  using assms by (simp add: load_columns_def ebind_def Let_def filter_map comp_def)

text \<open>
  C8. In DPO mode \<open>process_data\<close> returns an example exactly for a text prompt; the
  example's prompt is \<open>None\<close> exactly when the prompt's token count is at least
  \<open>max_length - 2\<close>, and is the prompt otherwise; its extra field is the token count.
  Marking is not an error: \<open>process_data\<close> returns for every text prompt. Outside DPO
  mode the extra field is the record's margin, 0 when absent. The columns loaded at the end
  of \<open>__init__\<close> are those of the examples whose prompt is not \<open>None\<close>, in order, and
  loading raises nothing once every \<open>process_data\<close> has returned.
\<close>

theorem dpo_prompt_filter:
  "(is_dpo self \<and> process_data fmt self data = Inr ex \<longrightarrow>
      (\<exists>s c r m.
         preprocess_data fmt data (input_template self) (prompt_key self) (chosen_key self)
           (rejected_key self) (apply_chat_template self) (is_dpo self) = Inr (PyStr s, c, r, m)
         \<and> (prompt ex = PyNone
              \<longleftrightarrow> prompt_ids_len (tokenizer self) (max_length self) s \<ge> max_length self - 2)
         \<and> (prompt ex = PyNone \<or> prompt ex = PyStr s)
         \<and> extra ex = PyNum (prompt_ids_len (tokenizer self) (max_length self) s)))
   \<and> (is_dpo self
       \<and> preprocess_data fmt data (input_template self) (prompt_key self) (chosen_key self)
           (rejected_key self) (apply_chat_template self) (is_dpo self) = Inr (PyStr s', c', r', m')
        \<longrightarrow> (\<exists>ex'. process_data fmt self data = Inr ex'))
   \<and> (\<not> is_dpo self \<and> process_data fmt self data = Inr ex \<longrightarrow> extra ex = margin_or_zero data)
   \<and> (emap (process_data fmt self) dataset = Inr exs \<longrightarrow>
        (\<exists>ds. load_columns fmt self dataset = Inr ds
           \<and> prompts ds = filter (\<lambda>p. p \<noteq> PyNone) (map prompt exs)
           \<and> chosens ds = map chosen (filter (\<lambda>x. prompt x \<noteq> PyNone) exs)
           \<and> rejects ds = map reject (filter (\<lambda>x. prompt x \<noteq> PyNone) exs)
           \<and> extras ds = map extra (filter (\<lambda>x. prompt x \<noteq> PyNone) exs)))"
proof (intro conjI impI)
  assume a: "is_dpo self \<and> process_data fmt self data = Inr ex"
  then obtain s c r m where
    pp: "preprocess_data fmt data (input_template self) (prompt_key self) (chosen_key self)
           (rejected_key self) (apply_chat_template self) (is_dpo self) = Inr (PyStr s, c, r, m)"
    using process_data_dpo_Inr by blast
  from a process_data_dpo [OF _ pp] have
    "ex = \<lparr>prompt = (if prompt_ids_len (tokenizer self) (max_length self) s
                            \<ge> max_length self - 2 then PyNone else PyStr s),
          chosen = c, reject = r,
          extra = PyNum (prompt_ids_len (tokenizer self) (max_length self) s)\<rparr>"
    by simp
  then have "(prompt ex = PyNone
              \<longleftrightarrow> prompt_ids_len (tokenizer self) (max_length self) s \<ge> max_length self - 2)
         \<and> (prompt ex = PyNone \<or> prompt ex = PyStr s)
         \<and> extra ex = PyNum (prompt_ids_len (tokenizer self) (max_length self) s)"
    by simp
  with pp show "\<exists>s c r m.
         preprocess_data fmt data (input_template self) (prompt_key self) (chosen_key self)
           (rejected_key self) (apply_chat_template self) (is_dpo self) = Inr (PyStr s, c, r, m)
         \<and> (prompt ex = PyNone
              \<longleftrightarrow> prompt_ids_len (tokenizer self) (max_length self) s \<ge> max_length self - 2)
         \<and> (prompt ex = PyNone \<or> prompt ex = PyStr s)
         \<and> extra ex = PyNum (prompt_ids_len (tokenizer self) (max_length self) s)"
    by blast
next
  assume "is_dpo self
       \<and> preprocess_data fmt data (input_template self) (prompt_key self) (chosen_key self)
           (rejected_key self) (apply_chat_template self) (is_dpo self) = Inr (PyStr s', c', r', m')"
  then show "\<exists>ex'. process_data fmt self data = Inr ex'"
    using process_data_dpo by blast
next
  assume "\<not> is_dpo self \<and> process_data fmt self data = Inr ex"
  then show "extra ex = margin_or_zero data" using process_data_not_dpo by blast
next
  assume "emap (process_data fmt self) dataset = Inr exs"
  then show "\<exists>ds. load_columns fmt self dataset = Inr ds
           \<and> prompts ds = filter (\<lambda>p. p \<noteq> PyNone) (map prompt exs)
           \<and> chosens ds = map chosen (filter (\<lambda>x. prompt x \<noteq> PyNone) exs)
           \<and> rejects ds = map reject (filter (\<lambda>x. prompt x \<noteq> PyNone) exs)
           \<and> extras ds = map extra (filter (\<lambda>x. prompt x \<noteq> PyNone) exs)"
    by (rule load_columns_Inr)
qed

lemma toy_dropped:
  "process_data toy_format (toy_dpo True) (toy_record ''Question'')
     = Inr \<lparr>prompt = PyNone, chosen = PyStr ''A:4'', reject = PyStr ''A:5'', extra = PyNum 6\<rparr>"
  by code_simp

lemma toy_kept:
  "process_data toy_format (toy_dpo True) (toy_record ''Q?'')
     = Inr \<lparr>prompt = PyStr ''Q?'', chosen = PyStr ''A:4'', reject = PyStr ''A:5'',
            extra = PyNum 2\<rparr>"
  by code_simp

lemma toy_margin:
  "process_data toy_format (toy_dpo False) (toy_record ''Question'')
     = Inr \<lparr>prompt = PyStr ''Question'', chosen = PyStr ''A:4'', reject = PyStr ''A:5'',
            extra = PyNum 3\<rparr>"
  by code_simp

lemma toy_mapped:
  "emap (process_data toy_format (toy_dpo True)) [toy_record ''Q?'', toy_record ''Question'']
     = Inr [\<lparr>prompt = PyStr ''Q?'', chosen = PyStr ''A:4'', reject = PyStr ''A:5'',
              extra = PyNum 2\<rparr>,
            \<lparr>prompt = PyNone, chosen = PyStr ''A:4'', reject = PyStr ''A:5'',
              extra = PyNum 6\<rparr>]"
  by (simp add: toy_dropped toy_kept)

theorem dpo_prompt_filter_witness:
  "is_dpo (toy_dpo True) \<and> \<not> is_dpo (toy_dpo False)
   \<and> process_data toy_format (toy_dpo True) (toy_record ''Question'')
     = Inr \<lparr>prompt = PyNone, chosen = PyStr ''A:4'', reject = PyStr ''A:5'', extra = PyNum 6\<rparr>
   \<and> (\<exists>s c r m.
         preprocess_data toy_format (toy_record ''Question'') (input_template (toy_dpo True))
           (prompt_key (toy_dpo True)) (chosen_key (toy_dpo True)) (rejected_key (toy_dpo True))
           (apply_chat_template (toy_dpo True)) (is_dpo (toy_dpo True)) = Inr (PyStr s, c, r, m)
         \<and> prompt_ids_len (tokenizer (toy_dpo True)) (max_length (toy_dpo True)) s
             \<ge> max_length (toy_dpo True) - 2
         \<and> prompt_ids_len (tokenizer (toy_dpo True)) (max_length (toy_dpo True)) s = 6)
   \<and> process_data toy_format (toy_dpo True) (toy_record ''Q?'')
     = Inr \<lparr>prompt = PyStr ''Q?'', chosen = PyStr ''A:4'', reject = PyStr ''A:5'',
            extra = PyNum 2\<rparr>
   \<and> process_data toy_format (toy_dpo False) (toy_record ''Question'')
     = Inr \<lparr>prompt = PyStr ''Question'', chosen = PyStr ''A:4'', reject = PyStr ''A:5'',
            extra = PyNum 3\<rparr>
   \<and> margin_or_zero (toy_record ''Question'') = PyNum 3
   \<and> (\<exists>ds. load_columns toy_format (toy_dpo True) [toy_record ''Q?'', toy_record ''Question'']
              = Inr ds
         \<and> prompts ds = [PyStr ''Q?''] \<and> chosens ds = [PyStr ''A:4'']
         \<and> rejects ds = [PyStr ''A:5''] \<and> extras ds = [PyNum 2])"
proof -
  let ?dropped = "\<lparr>prompt = PyNone, chosen = PyStr ''A:4'', reject = PyStr ''A:5'',
                   extra = PyNum 6\<rparr> :: unit example"
  let ?margin = "\<lparr>prompt = PyStr ''Question'', chosen = PyStr ''A:4'', reject = PyStr ''A:5'',
                  extra = PyNum 3\<rparr> :: unit example"
  have d: "is_dpo (toy_dpo True)" "\<not> is_dpo (toy_dpo False)" by (simp_all add: toy_dpo_def)
  from dpo_prompt_filter [of "toy_dpo True" toy_format "toy_record ''Question''" ?dropped]
    d toy_dropped
  have 1: "\<exists>s c r m.
         preprocess_data toy_format (toy_record ''Question'') (input_template (toy_dpo True))
           (prompt_key (toy_dpo True)) (chosen_key (toy_dpo True)) (rejected_key (toy_dpo True))
           (apply_chat_template (toy_dpo True)) (is_dpo (toy_dpo True)) = Inr (PyStr s, c, r, m)
         \<and> prompt_ids_len (tokenizer (toy_dpo True)) (max_length (toy_dpo True)) s
             \<ge> max_length (toy_dpo True) - 2
         \<and> prompt_ids_len (tokenizer (toy_dpo True)) (max_length (toy_dpo True)) s = 6"
    by auto
  from dpo_prompt_filter [of "toy_dpo False" toy_format "toy_record ''Question''" ?margin]
    d toy_margin
  have 2: "margin_or_zero (toy_record ''Question'') = PyNum 3" by simp
  from dpo_prompt_filter [of "toy_dpo True" toy_format _ _ _ _ _ _
      "[toy_record ''Q?'', toy_record ''Question'']"
      "[\<lparr>prompt = PyStr ''Q?'', chosen = PyStr ''A:4'', reject = PyStr ''A:5'',
              extra = PyNum 2\<rparr>, ?dropped]"] toy_mapped
  have 3: "\<exists>ds. load_columns toy_format (toy_dpo True) [toy_record ''Q?'', toy_record ''Question'']
              = Inr ds
         \<and> prompts ds = [PyStr ''Q?''] \<and> chosens ds = [PyStr ''A:4'']
         \<and> rejects ds = [PyStr ''A:5''] \<and> extras ds = [PyNum 2]"
    by simp
  from d toy_dropped toy_kept toy_margin 1 2 3 show ?thesis by blast
qed

end
